theory Spec2Isabelle
  imports Main "HOL-Library.Word"
begin

section \<open>Machine types and kernel primitives\<close>

text \<open>
  The drivers are built for \<open>ARCH = arm\<close> (see the driver Makefiles), so
  \<open>unsigned long\<close> (the type of \<open>jiffies\<close>) and \<open>int\<close> are both 32 bits wide.
  An \<open>int\<close> is kept as a word and read with \<open>sint\<close> wherever the source compares it;
  \<open>press_count++\<close> wraps around, as it does in a kernel build.
\<close>

type_synonym ulong = "32 word"
type_synonym cint = "32 word"

text \<open>\<open>#define DEBOUNCE_TIME_MS 50\<close> and \<open>#define MULTI_PRESS_TIMEOUT_MS 1000\<close>.\<close>

definition DEBOUNCE_TIME_MS :: nat where
  "DEBOUNCE_TIME_MS = 50"

definition MULTI_PRESS_TIMEOUT_MS :: nat where
  "MULTI_PRESS_TIMEOUT_MS = 1000"

text \<open>
  The kernel macro \<open>time_before(a, b)\<close> is \<open>((long)((a) - (b)) < 0)\<close>: the difference
  is taken modulo \<open>2 ^ 32\<close> and read as a signed number.
\<close>

definition time_before :: "ulong \<Rightarrow> ulong \<Rightarrow> bool" where
  "time_before a b = (sint (a - b) < 0)"

text \<open>
  \<open>msecs_to_jiffies\<close> depends on the kernel's tick rate \<open>HZ\<close>, which is not part of the
  repository: the driver functions take the conversion as a parameter. For the tick
  rates that divide 1000 the kernel computes the rounded-up quotient below.
\<close>

definition msecs_to_jiffies_hz :: "nat \<Rightarrow> nat \<Rightarrow> ulong" where
  "msecs_to_jiffies_hz hz m = of_nat ((m + (1000 div hz) - 1) div (1000 div hz))"

datatype errno = EFAULT | EINVAL

section \<open>State of the two drivers and of the lines they drive\<close>

text \<open>What \<open>pr_info\<close> and \<open>pr_err\<close> append to the kernel log.\<close>

datatype klog_msg =
    All_LEDs_turned_OFF
  | All_LEDs_turned_ON
  | LED_turned_ON int
  | Processing_presses cint
  | Button_pressed_Count cint
  | Button_driver_reset
  | Current_state_and_count cint cint
  | Led_is nat bool
  | Invalid_command char

text \<open>
  A GPIO descriptor is the number of the line it drives; \<open>NULL\<close> is \<open>None\<close>.
  \<open>press_timer\<close> holds the expiry of the timer while it is pending, and
  \<open>button_work\<close> is the pending bit of the work item. \<open>gpio_value\<close> is the level
  last written to each line and \<open>gpio_trace\<close> the calls of \<open>gpiod_set_value\<close> in
  the order they were made.
\<close>

record sys =
  press_count :: cint
  button_pressed :: bool
  current_led_state :: cint
  last_irq_time :: ulong
  led_gpios :: "nat option list"
  press_timer :: "ulong option"
  button_work :: bool
  led_state :: "bool list"
  gpio_value :: "bool list"
  gpio_trace :: "(nat \<times> bool) list"
  klog :: "klog_msg list"

definition pr_info :: "klog_msg \<Rightarrow> sys \<Rightarrow> sys" where
  "pr_info m s = s\<lparr>klog := klog s @ [m]\<rparr>"

definition gpiod_set_value :: "nat \<Rightarrow> bool \<Rightarrow> sys \<Rightarrow> sys" where
  "gpiod_set_value d v s =
     s\<lparr>gpio_value := (gpio_value s)[d := v], gpio_trace := gpio_trace s @ [(d, v)]\<rparr>"

text \<open>
  \<open>mod_timer\<close> (re)arms the timer with a new expiry, \<open>del_timer\<close> deactivates it, and
  \<open>schedule_work\<close> sets the pending bit of the work item: a work item that is already
  pending is not queued a second time.
\<close>

definition mod_timer :: "ulong \<Rightarrow> sys \<Rightarrow> sys" where
  "mod_timer expires s = s\<lparr>press_timer := Some expires\<rparr>"

definition del_timer :: "sys \<Rightarrow> sys" where
  "del_timer s = s\<lparr>press_timer := None\<rparr>"

definition schedule_work :: "sys \<Rightarrow> sys" where
  "schedule_work s = s\<lparr>button_work := True\<rparr>"

section \<open>The button driver\<close>

text \<open>One pass of the loops \<open>for (i = 0; i < 3; i++) if (led_gpios[i]) gpiod_set_value(led_gpios[i], v)\<close>.\<close>

definition set_led_if_present :: "bool \<Rightarrow> nat \<Rightarrow> sys \<Rightarrow> sys" where
  "set_led_if_present v i s =
     (case led_gpios s ! i of None \<Rightarrow> s | Some d \<Rightarrow> gpiod_set_value d v s)"

definition turn_off_all_leds :: "sys \<Rightarrow> sys" where
  "turn_off_all_leds s =
     pr_info All_LEDs_turned_OFF (fold (set_led_if_present False) [0, 1, 2] s)"

definition turn_on_all_leds :: "sys \<Rightarrow> sys" where
  "turn_on_all_leds s =
     pr_info All_LEDs_turned_ON (fold (set_led_if_present True) [0, 1, 2] s)"

definition control_led :: "int \<Rightarrow> sys \<Rightarrow> sys" where
  "control_led led_index s =
     (if 0 \<le> led_index \<and> led_index < 3 \<and> led_gpios s ! nat led_index \<noteq> None
      then pr_info (LED_turned_ON led_index)
             (gpiod_set_value (the (led_gpios s ! nat led_index)) True (turn_off_all_leds s))
      else s)"

definition button_work_handler :: "sys \<Rightarrow> sys" where
  "button_work_handler s0 =
     (let s = pr_info (Processing_presses (press_count s0)) s0;
          s' = (if press_count s = 1 then control_led 0 (s\<lparr>current_led_state := 1\<rparr>)
                else if press_count s = 2 then control_led 1 (s\<lparr>current_led_state := 2\<rparr>)
                else if press_count s = 3 then control_led 2 (s\<lparr>current_led_state := 3\<rparr>)
                else if press_count s = 4 then turn_on_all_leds (s\<lparr>current_led_state := 4\<rparr>)
                else turn_off_all_leds (s\<lparr>current_led_state := 0\<rparr>))
      in s'\<lparr>press_count := 0\<rparr>)"

definition press_timer_callback :: "sys \<Rightarrow> sys" where
  "press_timer_callback s = (if 0 < sint (press_count s) then schedule_work s else s)"

text \<open>
  The handler reads \<open>jiffies\<close> twice: \<open>current_time\<close> for the debounce test and once
  more for the expiry of the timer.
\<close>

definition button_irq_handler :: "(nat \<Rightarrow> ulong) \<Rightarrow> ulong \<Rightarrow> ulong \<Rightarrow> sys \<Rightarrow> sys" where
  "button_irq_handler msecs_to_jiffies current_time jiffies s0 =
     (if time_before current_time (last_irq_time s0 + msecs_to_jiffies DEBOUNCE_TIME_MS)
      then s0
      else
        let s1 = s0\<lparr>last_irq_time := current_time\<rparr>;
            s2 = s1\<lparr>button_pressed := True\<rparr>;
            s3 = s2\<lparr>press_count := press_count s2 + 1\<rparr>;
            s4 = pr_info (Button_pressed_Count (press_count s3)) s3;
            s5 = mod_timer (jiffies + msecs_to_jiffies MULTI_PRESS_TIMEOUT_MS) s4
        in if 5 \<le> sint (press_count s5) then schedule_work (del_timer s5) else s5)"

text \<open>Decimal rendering of \<open>%d\<close>.\<close>

fun dec_nat :: "nat \<Rightarrow> string" where
  "dec_nat n =
     (if n < 10 then [''0123456789'' ! n]
      else dec_nat (n div 10) @ [''0123456789'' ! (n mod 10)])"

declare dec_nat.simps [simp del]

definition dec_int :: "int \<Rightarrow> string" where
  "dec_int i = (if i < 0 then CHR ''-'' # dec_nat (nat (- i)) else dec_nat (nat i))"

definition led_status_of :: "cint \<Rightarrow> string" where
  "led_status_of st =
     (if st = 0 then ''All LEDs OFF''
      else if st = 1 then ''LED 0 (Green) ON''
      else if st = 2 then ''LED 1 (White) ON''
      else if st = 3 then ''LED 2 (Yellow) ON''
      else if st = 4 then ''All LEDs ON''
      else ''Unknown state'')"

text \<open>
  \<open>snprintf\<close> into \<open>status_msg[200]\<close> returns the length of the whole text and stores
  at most 199 characters of it.
\<close>

definition status_text :: "sys \<Rightarrow> string" where
  "status_text s =
     ''Button Status: '' @ (if button_pressed s then ''Pressed'' else ''Released'') @
     [CHR 0x0A] @ ''Press Count: '' @ dec_int (sint (press_count s)) @
     [CHR 0x0A] @ ''Current State: '' @ led_status_of (current_led_state s) @ [CHR 0x0A]"

text \<open>
  \<open>button_read\<close>: \<open>copy_ok\<close> tells whether \<open>copy_to_user\<close> succeeds. The result is
  the return value (the bytes delivered stand for their number), the new file offset and
  the new state.
\<close>

definition button_read :: "bool \<Rightarrow> nat \<Rightarrow> int \<Rightarrow> sys \<Rightarrow> (errno + string) \<times> int \<times> sys" where
  "button_read copy_ok len offset s =
     (if offset \<noteq> 0 then (Inr [], offset, s)
      else
        let msg_len = length (status_text s);
            status_msg = take 199 (status_text s)
        in if len < msg_len then (Inl EINVAL, offset, s)
           else if \<not> copy_ok then (Inl EFAULT, offset, s)
           else (Inr (take msg_len status_msg), offset + int msg_len,
                 s\<lparr>button_pressed := False\<rparr>))"

text \<open>
  \<open>button_write\<close>: \<open>ubuf\<close> is the byte \<open>copy_from_user\<close> fetches, \<open>None\<close> when the
  copy faults. The result is the return value and the new state.
\<close>

definition button_write :: "char option \<Rightarrow> nat \<Rightarrow> sys \<Rightarrow> (errno + nat) \<times> sys" where
  "button_write ubuf len s =
     (if len < 1 \<or> ubuf = None then (Inl EFAULT, s)
      else
        let cmd = the ubuf in
        if cmd = CHR ''r'' then
          (Inr len,
           pr_info Button_driver_reset
             (turn_off_all_leds (s\<lparr>press_count := 0, current_led_state := 0\<rparr>)))
        else if cmd = CHR ''s'' then
          (Inr len, pr_info (Current_state_and_count (current_led_state s) (press_count s)) s)
        else (Inl EINVAL, s))"

section \<open>The LED driver\<close>

text \<open>
  \<open>led_gpio[i]\<close> is the descriptor of line \<open>i\<close>; \<open>led_get_gpio\<close> hands it to the
  button driver.
\<close>

definition led_get_gpio :: "int \<Rightarrow> nat option" where
  "led_get_gpio index = (if 0 \<le> index \<and> index < 3 then Some (nat index) else None)"

text \<open>
  \<open>led_write\<close> on the device of minor number \<open>led_index\<close> (\<open>led_open\<close> admits the
  minors 0, 1 and 2 only).
\<close>

definition led_write :: "nat \<Rightarrow> char option \<Rightarrow> nat \<Rightarrow> sys \<Rightarrow> (errno + nat) \<times> sys" where
  "led_write led_index ubuf len s =
     (if len < 1 \<or> ubuf = None then (Inl EFAULT, s)
      else
        let cmd = the ubuf in
        if cmd = CHR ''1'' then
          (Inr len,
           pr_info (Led_is led_index True)
             (gpiod_set_value led_index True
                (s\<lparr>led_state := (led_state s)[led_index := True]\<rparr>)))
        else if cmd = CHR ''0'' then
          (Inr len,
           pr_info (Led_is led_index False)
             (gpiod_set_value led_index False
                (s\<lparr>led_state := (led_state s)[led_index := False]\<rparr>)))
        else if cmd = CHR ''t'' then
          (let s1 = s\<lparr>led_state := (led_state s)[led_index := \<not> led_state s ! led_index]\<rparr>;
               s2 = gpiod_set_value led_index (led_state s1 ! led_index) s1
           in (Inr len, pr_info (Led_is led_index (led_state s2 ! led_index)) s2))
        else (Inl EINVAL, pr_info (Invalid_command cmd) s))"

section \<open>The kernel running the handlers\<close>

text \<open>
  An expiring timer is deactivated before its callback runs, and a work item's pending bit
  is cleared before its handler runs. Neither runs unless it is pending.
\<close>

definition timer_expire :: "sys \<Rightarrow> sys" where
  "timer_expire s =
     (case press_timer s of None \<Rightarrow> s
      | Some expires \<Rightarrow> press_timer_callback (s\<lparr>press_timer := None\<rparr>))"

definition work_run :: "sys \<Rightarrow> sys" where
  "work_run s = (if button_work s then button_work_handler (s\<lparr>button_work := False\<rparr>) else s)"

datatype event =
    Irq ulong ulong
  | Timer_expire
  | Work_run
  | Read bool nat int
  | Write "char option" nat
  | Led_write nat "char option" nat

fun step :: "(nat \<Rightarrow> ulong) \<Rightarrow> event \<Rightarrow> sys \<Rightarrow> sys" where
  "step m2j (Irq t j) s = button_irq_handler m2j t j s"
| "step m2j Timer_expire s = timer_expire s"
| "step m2j Work_run s = work_run s"
| "step m2j (Read copy_ok len offset) s = snd (snd (button_read copy_ok len offset s))"
| "step m2j (Write ubuf len) s = snd (button_write ubuf len s)"
| "step m2j (Led_write i ubuf len) s = snd (led_write i ubuf len s)"

definition run :: "(nat \<Rightarrow> ulong) \<Rightarrow> event list \<Rightarrow> sys \<Rightarrow> sys" where
  "run m2j evs s = fold (step m2j) evs s"

text \<open>
  The state the two probe functions leave: the LED driver has set every line low, the
  button driver has fetched the three descriptors with \<open>led_get_gpio\<close> and called
  \<open>turn_off_all_leds\<close>; no timer and no work is pending. The trace of the writes and
  the kernel log are taken to start here.
\<close>

definition after_probe :: sys where
  "after_probe =
     \<lparr>press_count = 0, button_pressed = False, current_led_state = 0, last_irq_time = 0,
      led_gpios = map led_get_gpio [0, 1, 2], press_timer = None, button_work = False,
      led_state = [False, False, False], gpio_value = [False, False, False],
      gpio_trace = [], klog = []\<rparr>"

section \<open>Observations used in the statements\<close>

text \<open>The press counts the work handler has processed, read off the kernel log.\<close>

fun dispatches :: "klog_msg list \<Rightarrow> cint list" where
  "dispatches [] = []"
| "dispatches (Processing_presses n # ms) = n # dispatches ms"
| "dispatches (m # ms) = dispatches ms"

text \<open>The levels of the lines after a sequence of writes, and how many lines are high.\<close>

definition replay :: "(nat \<times> bool) list \<Rightarrow> bool list \<Rightarrow> bool list" where
  "replay ws xs = fold (\<lambda>w ys. ys[fst w := snd w]) ws xs"

definition active :: "bool list \<Rightarrow> nat" where
  "active xs = length (filter (\<lambda>b. b) xs)"

fun is_press :: "event \<Rightarrow> bool" where
  "is_press (Irq t j) = True"
| "is_press e = False"

text \<open>
  Whether an event is an interrupt that passes the debounce test in the state it meets,
  whether it is a reset command, and how many interrupts a sequence of events has
  accepted.
\<close>

fun is_accepted :: "(nat \<Rightarrow> ulong) \<Rightarrow> event \<Rightarrow> sys \<Rightarrow> bool" where
  "is_accepted m2j (Irq t j) s = (\<not> time_before t (last_irq_time s + m2j DEBOUNCE_TIME_MS))"
| "is_accepted m2j e s = False"

fun is_reset :: "event \<Rightarrow> bool" where
  "is_reset (Write ubuf len) = (1 \<le> len \<and> ubuf = Some (CHR ''r''))"
| "is_reset e = False"

fun is_work_run :: "event \<Rightarrow> bool" where
  "is_work_run Work_run = True"
| "is_work_run e = False"

fun accepted_count :: "(nat \<Rightarrow> ulong) \<Rightarrow> event list \<Rightarrow> sys \<Rightarrow> nat" where
  "accepted_count m2j [] s = 0"
| "accepted_count m2j (e # evs) s =
     (if is_accepted m2j e s then 1 else 0) + accepted_count m2j evs (step m2j e s)"

text \<open>
  How many events of a sequence set the pending bit of the work item, that is, call
  \<open>schedule_work\<close> while the work is not pending.
\<close>

fun scheduled_count :: "(nat \<Rightarrow> ulong) \<Rightarrow> event list \<Rightarrow> sys \<Rightarrow> nat" where
  "scheduled_count m2j [] s = 0"
| "scheduled_count m2j (e # evs) s =
     (if \<not> button_work s \<and> button_work (step m2j e s) then 1 else 0)
     + scheduled_count m2j evs (step m2j e s)"

section \<open>Auxiliary facts\<close>

subsection \<open>Signed reading of a 32-bit difference\<close>




subsection \<open>Lists of three lines\<close>

lemma length_3_cases: "length xs = 3 \<Longrightarrow> \<exists>a b c. xs = [a, b, c]"
  by (auto simp: numeral_3_eq_3 length_Suc_conv)

lemma nth_update_cases:
  "xs[i := x] ! j = (if i = j \<and> i < length xs then x else xs ! j)"
  by (cases "i < length xs") (auto simp: nth_list_update list_update_beyond)

lemma update_twice4:
  "xs[a := u, b := v, c := w, d := x, a := u, b := v, c := w, d := x] = xs[a := u, b := v, c := w, d := x]"
  by (simp add: list_eq_iff_nth_eq nth_update_cases)

lemma update_twice3:
  "xs[a := u, b := v, c := w, a := u, b := v, c := w] = xs[a := u, b := v, c := w]"
  by (simp add: list_eq_iff_nth_eq nth_update_cases)

subsection \<open>The actuation functions once the three descriptors are in place\<close>

lemma turn_off_all_leds_probed:
  assumes "led_gpios s = [Some 0, Some 1, Some 2]"
  shows "turn_off_all_leds s =
           s\<lparr>gpio_value := (gpio_value s)[0 := False, 1 := False, 2 := False],
             gpio_trace := gpio_trace s @ [(0, False), (1, False), (2, False)],
             klog := klog s @ [All_LEDs_turned_OFF]\<rparr>"
  by (simp add: turn_off_all_leds_def set_led_if_present_def gpiod_set_value_def pr_info_def assms)

lemma turn_on_all_leds_probed:
  assumes "led_gpios s = [Some 0, Some 1, Some 2]"
  shows "turn_on_all_leds s =
           s\<lparr>gpio_value := (gpio_value s)[0 := True, 1 := True, 2 := True],
             gpio_trace := gpio_trace s @ [(0, True), (1, True), (2, True)],
             klog := klog s @ [All_LEDs_turned_ON]\<rparr>"
  by (simp add: turn_on_all_leds_def set_led_if_present_def gpiod_set_value_def pr_info_def assms)

lemma control_led_probed:
  assumes "led_gpios s = [Some 0, Some 1, Some 2]" and "i \<in> {0, 1, 2}"
  shows "control_led i s =
           s\<lparr>gpio_value := (gpio_value s)[0 := False, 1 := False, 2 := False, nat i := True],
             gpio_trace := gpio_trace s @ [(0, False), (1, False), (2, False), (nat i, True)],
             klog := klog s @ [All_LEDs_turned_OFF, LED_turned_ON i]\<rparr>"
  using assms(2)
  by (auto simp add: control_led_def turn_off_all_leds_probed gpiod_set_value_def pr_info_def assms(1))

lemma handler_probed:
  assumes "led_gpios s = [Some 0, Some 1, Some 2]"
  shows "button_work_handler s =
    (if press_count s = 1 then
       s\<lparr>press_count := 0, current_led_state := 1,
         gpio_value := (gpio_value s)[0 := False, 1 := False, 2 := False, 0 := True],
         gpio_trace := gpio_trace s @ [(0, False), (1, False), (2, False), (0, True)],
         klog := klog s @ [Processing_presses 1, All_LEDs_turned_OFF, LED_turned_ON 0]\<rparr>
     else if press_count s = 2 then
       s\<lparr>press_count := 0, current_led_state := 2,
         gpio_value := (gpio_value s)[0 := False, 1 := False, 2 := False, 1 := True],
         gpio_trace := gpio_trace s @ [(0, False), (1, False), (2, False), (1, True)],
         klog := klog s @ [Processing_presses 2, All_LEDs_turned_OFF, LED_turned_ON 1]\<rparr>
     else if press_count s = 3 then
       s\<lparr>press_count := 0, current_led_state := 3,
         gpio_value := (gpio_value s)[0 := False, 1 := False, 2 := False, 2 := True],
         gpio_trace := gpio_trace s @ [(0, False), (1, False), (2, False), (2, True)],
         klog := klog s @ [Processing_presses 3, All_LEDs_turned_OFF, LED_turned_ON 2]\<rparr>
     else if press_count s = 4 then
       s\<lparr>press_count := 0, current_led_state := 4,
         gpio_value := (gpio_value s)[0 := True, 1 := True, 2 := True],
         gpio_trace := gpio_trace s @ [(0, True), (1, True), (2, True)],
         klog := klog s @ [Processing_presses 4, All_LEDs_turned_ON]\<rparr>
     else
       s\<lparr>press_count := 0, current_led_state := 0,
         gpio_value := (gpio_value s)[0 := False, 1 := False, 2 := False],
         gpio_trace := gpio_trace s @ [(0, False), (1, False), (2, False)],
         klog := klog s @ [Processing_presses (press_count s), All_LEDs_turned_OFF]\<rparr>)"
  by (simp add: button_work_handler_def Let_def pr_info_def control_led_probed
      turn_on_all_leds_probed turn_off_all_leds_probed assms)

lemma handler_led_gpios:
  "led_gpios s = [Some 0, Some 1, Some 2] \<Longrightarrow>
   led_gpios (button_work_handler s) = [Some 0, Some 1, Some 2]"
  by (simp add: handler_probed)

lemma after_probe_led_gpios: "led_gpios after_probe = [Some 0, Some 1, Some 2]"
  by (simp add: after_probe_def led_get_gpio_def)

subsection \<open>What the actuation functions leave unchanged\<close>

lemma dispatches_append: "dispatches (xs @ ys) = dispatches xs @ dispatches ys"
  by (induction xs rule: dispatches.induct) simp_all

lemma set_led_if_present_frame:
  "klog (set_led_if_present v i s) = klog s"
  "current_led_state (set_led_if_present v i s) = current_led_state s"
  "press_count (set_led_if_present v i s) = press_count s"
  "led_gpios (set_led_if_present v i s) = led_gpios s"
  "button_work (set_led_if_present v i s) = button_work s"
  "press_timer (set_led_if_present v i s) = press_timer s"
  by (simp_all add: set_led_if_present_def gpiod_set_value_def split: option.splits)

lemma turn_off_all_leds_frame:
  "klog (turn_off_all_leds s) = klog s @ [All_LEDs_turned_OFF]"
  "current_led_state (turn_off_all_leds s) = current_led_state s"
  "press_count (turn_off_all_leds s) = press_count s"
  "led_gpios (turn_off_all_leds s) = led_gpios s"
  "button_work (turn_off_all_leds s) = button_work s"
  "press_timer (turn_off_all_leds s) = press_timer s"
  by (simp_all add: turn_off_all_leds_def pr_info_def set_led_if_present_frame)

lemma turn_on_all_leds_frame:
  "klog (turn_on_all_leds s) = klog s @ [All_LEDs_turned_ON]"
  "current_led_state (turn_on_all_leds s) = current_led_state s"
  "press_count (turn_on_all_leds s) = press_count s"
  "led_gpios (turn_on_all_leds s) = led_gpios s"
  "button_work (turn_on_all_leds s) = button_work s"
  "press_timer (turn_on_all_leds s) = press_timer s"
  by (simp_all add: turn_on_all_leds_def pr_info_def set_led_if_present_frame)

lemma control_led_frame:
  "dispatches (klog (control_led i s)) = dispatches (klog s)"
  "current_led_state (control_led i s) = current_led_state s"
  "press_count (control_led i s) = press_count s"
  "led_gpios (control_led i s) = led_gpios s"
  "button_work (control_led i s) = button_work s"
  "press_timer (control_led i s) = press_timer s"
  by (simp_all add: control_led_def pr_info_def gpiod_set_value_def turn_off_all_leds_frame
      dispatches_append)

lemma handler_frame:
  "dispatches (klog (button_work_handler s)) = dispatches (klog s) @ [press_count s]"
  "press_count (button_work_handler s) = 0"
  "current_led_state (button_work_handler s) =
     (if press_count s = 1 then 1 else if press_count s = 2 then 2
      else if press_count s = 3 then 3 else if press_count s = 4 then 4 else 0)"
  "led_gpios (button_work_handler s) = led_gpios s"
  "button_work (button_work_handler s) = button_work s"
  "press_timer (button_work_handler s) = press_timer s"
  by (simp_all add: button_work_handler_def Let_def pr_info_def control_led_frame
      turn_on_all_leds_frame turn_off_all_leds_frame dispatches_append)

lemma timer_expire_eq:
  "timer_expire s =
     (if press_timer s \<noteq> None \<and> 0 < sint (press_count s)
      then s\<lparr>press_timer := None, button_work := True\<rparr>
      else s\<lparr>press_timer := None\<rparr>)"
  by (cases "press_timer s") (simp_all add: timer_expire_def press_timer_callback_def schedule_work_def)

section \<open>The dispatch handler\<close>

text \<open>
  C4. For every press count \<open>n\<close> the handler produces the mapped state: 1, 2 and 3 leave
  exactly output 0, 1 and 2 high, 4 leaves all three high, and 5 or any other value
  (0 among them) leaves all three low; \<open>current_led_state\<close> records 1, 2, 3, 4 and 0
  accordingly. The three descriptors are the ones the probe function fetched.
\<close>

theorem dispatch_mapping:
  assumes "led_gpios s = [Some 0, Some 1, Some 2]" and "length (gpio_value s) = 3"
  shows "gpio_value (button_work_handler (s\<lparr>press_count := n\<rparr>)) =
           (if n = 1 then [True, False, False]
            else if n = 2 then [False, True, False]
            else if n = 3 then [False, False, True]
            else if n = 4 then [True, True, True]
            else [False, False, False])
       \<and> current_led_state (button_work_handler (s\<lparr>press_count := n\<rparr>)) =
           (if n = 1 then 1 else if n = 2 then 2 else if n = 3 then 3 else if n = 4 then 4 else 0)"
proof -
  obtain a b c where v: "gpio_value s = [a, b, c]"
    using length_3_cases [OF assms(2)] by blast
  show ?thesis
    by (simp add: handler_probed assms(1) v)
qed

theorem dispatch_mapping_witness:
  "gpio_value (button_work_handler (after_probe\<lparr>press_count := 2\<rparr>)) = [False, True, False]
   \<and> current_led_state (button_work_handler (after_probe\<lparr>press_count := 2\<rparr>)) = 2
   \<and> gpio_value (button_work_handler (after_probe\<lparr>press_count := 4\<rparr>)) = [True, True, True]
   \<and> gpio_value (button_work_handler (after_probe\<lparr>press_count := 5\<rparr>)) = [False, False, False]
   \<and> current_led_state (button_work_handler (after_probe\<lparr>press_count := 0\<rparr>)) = 0"
proof -
  have g: "led_gpios after_probe = [Some 0, Some 1, Some 2]"
    by (rule after_probe_led_gpios)
  have l: "length (gpio_value after_probe) = 3"
    by (simp add: after_probe_def)
  show ?thesis
    using dispatch_mapping [OF g l, of 2] dispatch_mapping [OF g l, of 4]
      dispatch_mapping [OF g l, of 5] dispatch_mapping [OF g l, of 0]
    by simp
qed

text \<open>
  C5, as stated, fails for the all-on actuation: with four presses the handler calls
  \<open>turn_on_all_leds\<close> alone, which writes the three lines high and writes no line low
  before. And when all three lines are high, selecting output 0 passes through a point
  where two lines are still high (after the first write of the all-off pass).
\<close>

theorem write_order_all_on_counterexample:
  "gpio_trace (button_work_handler (after_probe\<lparr>press_count := 4\<rparr>)) =
     [(0, True), (1, True), (2, True)]
   \<and> filter (\<lambda>w. \<not> snd w) (gpio_trace (button_work_handler (after_probe\<lparr>press_count := 4\<rparr>))) = []
   \<and> gpio_value (button_work_handler (after_probe\<lparr>press_count := 4\<rparr>)) = [True, True, True]
   \<and> drop 3 (gpio_trace (button_work_handler
        ((button_work_handler (after_probe\<lparr>press_count := 4\<rparr>))\<lparr>press_count := 1\<rparr>))) =
     [(0, False), (1, False), (2, False), (0, True)]
   \<and> active (replay
        (take 1 (drop 3 (gpio_trace (button_work_handler
           ((button_work_handler (after_probe\<lparr>press_count := 4\<rparr>))\<lparr>press_count := 1\<rparr>)))))
        (gpio_value (button_work_handler (after_probe\<lparr>press_count := 4\<rparr>)))) = 2"
proof -
  have g: "led_gpios (after_probe\<lparr>press_count := 4\<rparr>) = [Some 0, Some 1, Some 2]"
    by (simp add: after_probe_led_gpios)
  have g': "led_gpios ((button_work_handler (after_probe\<lparr>press_count := 4\<rparr>))\<lparr>press_count := 1\<rparr>)
      = [Some 0, Some 1, Some 2]"
    using handler_led_gpios [OF g] by simp
  show ?thesis
    unfolding handler_probed [OF g'] unfolding handler_probed [OF g]
    by (simp add: after_probe_def replay_def active_def)
qed

text \<open>
  C5, amended. Selecting one output (1, 2 or 3 presses) writes all three lines low in the
  order 0, 1, 2 and then the selected line high; the all-on actuation (4 presses) writes
  the three lines high and nothing else; every other count writes the three lines low.
  When at most one line is high before a selection, at most one line is high after
  every prefix of its writes.
\<close>

theorem write_order:
  assumes "led_gpios s = [Some 0, Some 1, Some 2]" and "length (gpio_value s) = 3"
  shows "gpio_trace (button_work_handler (s\<lparr>press_count := n\<rparr>)) = gpio_trace s @
           (if n = 1 then [(0, False), (1, False), (2, False), (0, True)]
            else if n = 2 then [(0, False), (1, False), (2, False), (1, True)]
            else if n = 3 then [(0, False), (1, False), (2, False), (2, True)]
            else if n = 4 then [(0, True), (1, True), (2, True)]
            else [(0, False), (1, False), (2, False)])
       \<and> (n \<in> {1, 2, 3} \<and> active (gpio_value s) \<le> 1 \<longrightarrow>
            (\<forall>k. active (replay
                   (take k (drop (length (gpio_trace s))
                      (gpio_trace (button_work_handler (s\<lparr>press_count := n\<rparr>)))))
                   (gpio_value s)) \<le> 1))"
proof -
  obtain a b c where v: "gpio_value s = [a, b, c]"
    using length_3_cases [OF assms(2)] by blast
  have tr: "gpio_trace (button_work_handler (s\<lparr>press_count := n\<rparr>)) = gpio_trace s @
           (if n = 1 then [(0, False), (1, False), (2, False), (0, True)]
            else if n = 2 then [(0, False), (1, False), (2, False), (1, True)]
            else if n = 3 then [(0, False), (1, False), (2, False), (2, True)]
            else if n = 4 then [(0, True), (1, True), (2, True)]
            else [(0, False), (1, False), (2, False)])"
    by (simp add: handler_probed assms(1))
  have mid: "active (replay (take k [(0, False), (1, False), (2, False), (i, True)]) [a, b, c]) \<le> 1"
    if "active [a, b, c] \<le> 1" and "i < 3" for k i
  proof -
    have "k = 0 \<or> k = 1 \<or> k = 2 \<or> k = 3 \<or> 4 \<le> k" by arith
    moreover have "i = 0 \<or> i = 1 \<or> i = 2" using that(2) by arith
    ultimately show ?thesis
      using that(1) by (cases a; cases b; cases c) (auto simp: replay_def active_def)
  qed
  show ?thesis
    unfolding tr using mid [of 0] mid [of 1] mid [of 2] by (auto simp: v)
qed

theorem write_order_witness:
  "gpio_trace (button_work_handler (after_probe\<lparr>press_count := 2\<rparr>)) =
     [(0, False), (1, False), (2, False), (1, True)]
   \<and> active (gpio_value after_probe) \<le> 1
   \<and> active (replay (take 2 (gpio_trace (button_work_handler (after_probe\<lparr>press_count := 2\<rparr>))))
         (gpio_value after_probe)) \<le> 1"
proof -
  have g: "led_gpios after_probe = [Some 0, Some 1, Some 2]"
    by (rule after_probe_led_gpios)
  have l: "length (gpio_value after_probe) = 3"
    by (simp add: after_probe_def)
  have a: "active (gpio_value after_probe) \<le> 1"
    by (simp add: after_probe_def active_def)
  have e: "gpio_trace after_probe = []"
    by (simp add: after_probe_def)
  note w = write_order [OF g l, of 2]
  from w have t: "gpio_trace (button_work_handler (after_probe\<lparr>press_count := 2\<rparr>)) =
     [(0, False), (1, False), (2, False), (1, True)]"
    by (simp add: e)
  have m: "(2 :: cint) \<in> {1, 2, 3}"
    by simp
  from w m a have "\<forall>k. active (replay
         (take k (drop (length (gpio_trace after_probe))
            (gpio_trace (button_work_handler (after_probe\<lparr>press_count := 2\<rparr>)))))
         (gpio_value after_probe)) \<le> 1"
    by blast
  then have "active (replay
         (take 2 (drop (length (gpio_trace after_probe))
            (gpio_trace (button_work_handler (after_probe\<lparr>press_count := 2\<rparr>)))))
         (gpio_value after_probe)) \<le> 1"
    by (rule spec)
  then show ?thesis using t a by (simp add: e)
qed

text \<open>
  C7. The actuation is idempotent: handling the same press count \<open>n\<close> a second time
  leaves the lines and \<open>current_led_state\<close> as the first handling left them.
\<close>

theorem dispatch_idempotent:
  assumes "led_gpios s = [Some 0, Some 1, Some 2]"
  shows "gpio_value (button_work_handler
             ((button_work_handler (s\<lparr>press_count := n\<rparr>))\<lparr>press_count := n\<rparr>))
           = gpio_value (button_work_handler (s\<lparr>press_count := n\<rparr>))
       \<and> current_led_state (button_work_handler
             ((button_work_handler (s\<lparr>press_count := n\<rparr>))\<lparr>press_count := n\<rparr>))
           = current_led_state (button_work_handler (s\<lparr>press_count := n\<rparr>))"
proof -
  let ?once = "button_work_handler (s\<lparr>press_count := n\<rparr>)"
  have o: "led_gpios (s\<lparr>press_count := n\<rparr>) = [Some 0, Some 1, Some 2]"
    using assms by simp
  have g: "led_gpios (?once\<lparr>press_count := n\<rparr>) = [Some 0, Some 1, Some 2]"
    using handler_led_gpios [OF o] by simp
  show ?thesis
    unfolding handler_probed [OF g]
    unfolding handler_probed [OF o]
    by (simp add: update_twice4 update_twice3)
qed

theorem dispatch_idempotent_witness:
  "gpio_value (button_work_handler
       ((button_work_handler (after_probe\<lparr>press_count := 3\<rparr>))\<lparr>press_count := 3\<rparr>))
     = [False, False, True]
   \<and> current_led_state (button_work_handler
       ((button_work_handler (after_probe\<lparr>press_count := 3\<rparr>))\<lparr>press_count := 3\<rparr>))
     = 3"
proof -
  have g: "led_gpios (after_probe\<lparr>press_count := 3\<rparr>) = [Some 0, Some 1, Some 2]"
    by (simp add: after_probe_led_gpios)
  have "gpio_value (button_work_handler (after_probe\<lparr>press_count := 3\<rparr>)) = [False, False, True]"
    and "current_led_state (button_work_handler (after_probe\<lparr>press_count := 3\<rparr>)) = 3"
    unfolding handler_probed [OF g] by (simp_all add: after_probe_def)
  then show ?thesis
    using dispatch_idempotent [OF after_probe_led_gpios, of 3] by simp
qed

section \<open>The debounce filter\<close>

lemma irq_rejected:
  "time_before t (last_irq_time s + m2j DEBOUNCE_TIME_MS) \<Longrightarrow> button_irq_handler m2j t j s = s"
  by (simp add: button_irq_handler_def)

lemma irq_accepted:
  assumes "\<not> time_before t (last_irq_time s + m2j DEBOUNCE_TIME_MS)"
  shows "button_irq_handler m2j t j s =
     (if 5 \<le> sint (press_count s + 1) then
        s\<lparr>press_count := press_count s + 1, button_pressed := True, last_irq_time := t,
          press_timer := None, button_work := True,
          klog := klog s @ [Button_pressed_Count (press_count s + 1)]\<rparr>
      else
        s\<lparr>press_count := press_count s + 1, button_pressed := True, last_irq_time := t,
          press_timer := Some (j + m2j MULTI_PRESS_TIMEOUT_MS),
          klog := klog s @ [Button_pressed_Count (press_count s + 1)]\<rparr>)"
  using assms
  by (simp add: button_irq_handler_def Let_def pr_info_def mod_timer_def del_timer_def
      schedule_work_def)




section \<open>The write operations\<close>

text \<open>
  C9. A command byte other than \<open>r\<close> and \<open>s\<close> on the button device, or other than
  \<open>1\<close>, \<open>0\<close> and \<open>t\<close> on an LED device, is answered with \<open>-EINVAL\<close>, and
  no variable of either driver and no line changes: the button driver returns the state as
  it was, the LED driver only adds the line of \<open>pr_err\<close> to the kernel log.
\<close>

theorem invalid_command:
  "(cmd \<noteq> CHR ''r'' \<and> cmd \<noteq> CHR ''s'' \<and> 1 \<le> len \<longrightarrow>
      button_write (Some cmd) len s = (Inl EINVAL, s))
   \<and> (cmd \<noteq> CHR ''1'' \<and> cmd \<noteq> CHR ''0'' \<and> cmd \<noteq> CHR ''t'' \<and> 1 \<le> len \<longrightarrow>
      led_write i (Some cmd) len s = (Inl EINVAL, s\<lparr>klog := klog s @ [Invalid_command cmd]\<rparr>))"
  by (simp add: button_write_def led_write_def pr_info_def)

theorem invalid_command_witness:
  "button_write (Some (CHR ''x'')) 1 after_probe = (Inl EINVAL, after_probe)
   \<and> led_write 1 (Some (CHR ''x'')) 1 after_probe
       = (Inl EINVAL, after_probe\<lparr>klog := klog after_probe @ [Invalid_command (CHR ''x'')]\<rparr>)"
  using invalid_command [of "CHR ''x''" 1 after_probe 1] by simp


section \<open>From a completed gesture to the worker\<close>

text \<open>
  C1, as stated, fails: completing a gesture only sets the pending bit of the work item.
  \<open>press_count\<close> is not handed over and not reset at that point; the handler reads the
  variable when it runs. After one press and the timeout the count is still 1 and the work
  is pending; a press accepted before the worker runs makes it 2, and the worker then
  processes 2 and selects output 1.
\<close>

theorem handoff_counterexample:
  "press_count (run (msecs_to_jiffies_hz 100) [Irq 100 100, Timer_expire] after_probe) = 1
   \<and> button_work (run (msecs_to_jiffies_hz 100) [Irq 100 100, Timer_expire] after_probe)
   \<and> dispatches (klog (run (msecs_to_jiffies_hz 100)
        [Irq 100 100, Timer_expire, Irq 201 201, Work_run] after_probe)) = [2]
   \<and> current_led_state (run (msecs_to_jiffies_hz 100)
        [Irq 100 100, Timer_expire, Irq 201 201, Work_run] after_probe) = 2"
proof -
  let ?m = "msecs_to_jiffies_hz 100"
  have d: "?m DEBOUNCE_TIME_MS = 5" "?m MULTI_PRESS_TIMEOUT_MS = 100"
    by (simp_all add: msecs_to_jiffies_hz_def DEBOUNCE_TIME_MS_def MULTI_PRESS_TIMEOUT_MS_def)
  have s1: "button_irq_handler ?m 100 100 after_probe =
      after_probe\<lparr>press_count := 1, button_pressed := True, last_irq_time := 100,
        press_timer := Some 200, klog := [Button_pressed_Count 1]\<rparr>"
    by (simp add: button_irq_handler_def d time_before_def after_probe_def Let_def pr_info_def
        mod_timer_def)
  have s2: "timer_expire (button_irq_handler ?m 100 100 after_probe) =
      after_probe\<lparr>press_count := 1, button_pressed := True, last_irq_time := 100,
        press_timer := None, button_work := True, klog := [Button_pressed_Count 1]\<rparr>"
    unfolding s1 by (simp add: timer_expire_eq after_probe_def)
  have s3: "button_irq_handler ?m 201 201 (timer_expire (button_irq_handler ?m 100 100 after_probe)) =
      after_probe\<lparr>press_count := 2, button_pressed := True, last_irq_time := 201,
        press_timer := Some 301, button_work := True,
        klog := [Button_pressed_Count 1, Button_pressed_Count 2]\<rparr>"
    unfolding s2
    by (simp add: button_irq_handler_def d time_before_def after_probe_def Let_def pr_info_def
        mod_timer_def)
  have s4: "dispatches (klog (work_run (button_irq_handler ?m 201 201
              (timer_expire (button_irq_handler ?m 100 100 after_probe))))) = [2]"
     and s5: "current_led_state (work_run (button_irq_handler ?m 201 201
              (timer_expire (button_irq_handler ?m 100 100 after_probe)))) = 2"
    unfolding s3 by (simp_all add: work_run_def handler_frame after_probe_def)
  show ?thesis
    using s4 s5 by (simp add: run_def s2)
qed

subsection \<open>Runs between a completion and the worker\<close>

lemma run_Nil: "run m2j [] s = s"
  by (simp add: run_def)

lemma run_Cons: "run m2j (e # evs) s = run m2j evs (step m2j e s)"
  by (simp add: run_def)

lemma run_append: "run m2j (xs @ ys) s = run m2j ys (run m2j xs s)"
  by (simp add: run_def)

lemma button_write_frame:
  "button_work (snd (button_write ubuf len s)) = button_work s"
  "dispatches (klog (snd (button_write ubuf len s))) = dispatches (klog s)"
  "\<not> (1 \<le> len \<and> ubuf = Some (CHR ''r'')) \<Longrightarrow>
     press_count (snd (button_write ubuf len s)) = press_count s"
  by (auto simp add: button_write_def Let_def pr_info_def turn_off_all_leds_frame dispatches_append)

lemma led_write_frame:
  "button_work (snd (led_write i ubuf len s)) = button_work s"
  "dispatches (klog (snd (led_write i ubuf len s))) = dispatches (klog s)"
  "press_count (snd (led_write i ubuf len s)) = press_count s"
  by (simp_all add: led_write_def Let_def pr_info_def gpiod_set_value_def dispatches_append)

lemma button_read_frame:
  "button_work (snd (snd (button_read copy_ok len offset s))) = button_work s"
  "klog (snd (snd (button_read copy_ok len offset s))) = klog s"
  "press_count (snd (snd (button_read copy_ok len offset s))) = press_count s"
  by (simp_all add: button_read_def Let_def)

lemma irq_frame:
  "dispatches (klog (button_irq_handler m2j t j s)) = dispatches (klog s)"
  "button_work (button_irq_handler m2j t j s) =
     (button_work s \<or> (\<not> time_before t (last_irq_time s + m2j DEBOUNCE_TIME_MS)
         \<and> 5 \<le> sint (press_count s + 1)))"
  "press_count (button_irq_handler m2j t j s) =
     (if time_before t (last_irq_time s + m2j DEBOUNCE_TIME_MS) then press_count s
      else press_count s + 1)"
  by (cases "time_before t (last_irq_time s + m2j DEBOUNCE_TIME_MS)";
      simp add: irq_rejected irq_accepted dispatches_append)+

lemma step_dispatch_balance:
  "length (dispatches (klog (step m2j e s))) + (if button_work (step m2j e s) then 1 else 0)
     = length (dispatches (klog s)) + (if button_work s then 1 else 0)
       + (if \<not> button_work s \<and> button_work (step m2j e s) then 1 else 0)"
proof (cases e)
  case (Irq t j)
  then show ?thesis by (simp add: irq_frame)
next
  case Timer_expire
  then show ?thesis by (simp add: timer_expire_eq)
next
  case Work_run
  then show ?thesis by (simp add: work_run_def handler_frame)
next
  case (Read copy_ok len offset)
  then show ?thesis by (simp add: button_read_frame)
next
  case (Write ubuf len)
  then show ?thesis by (simp add: button_write_frame)
next
  case (Led_write i ubuf len)
  then show ?thesis by (simp add: led_write_frame)
qed

lemma run_dispatch_balance:
  "length (dispatches (klog (run m2j evs s))) + (if button_work (run m2j evs s) then 1 else 0)
     = length (dispatches (klog s)) + (if button_work s then 1 else 0)
       + scheduled_count m2j evs s"
proof (induction evs arbitrary: s)
  case Nil
  then show ?case by (simp add: run_Nil)
next
  case (Cons e evs)
  have "length (dispatches (klog (run m2j (e # evs) s)))
          + (if button_work (run m2j (e # evs) s) then 1 else 0)
        = length (dispatches (klog (step m2j e s))) + (if button_work (step m2j e s) then 1 else 0)
          + scheduled_count m2j evs (step m2j e s)"
    unfolding run_Cons by (rule Cons.IH)
  also have "\<dots> = length (dispatches (klog s)) + (if button_work s then 1 else 0)
       + (if \<not> button_work s \<and> button_work (step m2j e s) then 1 else 0)
       + scheduled_count m2j evs (step m2j e s)"
    by (simp only: step_dispatch_balance)
  finally show ?case by simp
qed

lemma step_between:
  assumes "button_work s" and "\<not> is_reset e" and "\<not> is_work_run e"
  shows "button_work (step m2j e s)
       \<and> press_count (step m2j e s) = press_count s + (if is_accepted m2j e s then 1 else 0)
       \<and> dispatches (klog (step m2j e s)) = dispatches (klog s)"
proof (cases e)
  case (Irq t j)
  then show ?thesis using assms(1) by (simp add: irq_frame)
next
  case Timer_expire
  then show ?thesis using assms(1) by (simp add: timer_expire_eq)
next
  case Work_run
  then show ?thesis using assms(3) by simp
next
  case (Read copy_ok len offset)
  then show ?thesis using assms(1) by (simp add: button_read_frame)
next
  case (Write ubuf len)
  then show ?thesis using assms(1, 2) by (simp add: button_write_frame)
next
  case (Led_write i ubuf len)
  then show ?thesis using assms(1) by (simp add: led_write_frame)
qed

lemma run_between:
  assumes "button_work s" and "list_all (\<lambda>e. \<not> is_reset e \<and> \<not> is_work_run e) evs"
  shows "button_work (run m2j evs s)
       \<and> press_count (run m2j evs s) = press_count s + of_nat (accepted_count m2j evs s)
       \<and> dispatches (klog (run m2j evs s)) = dispatches (klog s)"
  using assms
proof (induction evs arbitrary: s)
  case Nil
  then show ?case by (simp add: run_Nil)
next
  case (Cons e evs)
  have st: "button_work (step m2j e s)
       \<and> press_count (step m2j e s) = press_count s + (if is_accepted m2j e s then 1 else 0)
       \<and> dispatches (klog (step m2j e s)) = dispatches (klog s)"
    using Cons.prems by (intro step_between) simp_all
  have "button_work (run m2j evs (step m2j e s))
       \<and> press_count (run m2j evs (step m2j e s))
           = press_count (step m2j e s) + of_nat (accepted_count m2j evs (step m2j e s))
       \<and> dispatches (klog (run m2j evs (step m2j e s))) = dispatches (klog (step m2j e s))"
    using Cons.prems st by (intro Cons.IH) simp_all
  then show ?case using st by (simp add: run_Cons)
qed

text \<open>
  C1, amended. A completion (the expiry of the armed timer with a positive count, or the
  accepted press that brings the count to 5 or more) marks the work item pending and
  neither hands over nor resets \<open>press_count\<close>: the expiry leaves it as it is and an
  accepted press only increments it. The worker processes the value \<open>press_count\<close> holds
  when it runs (the log entry, \<open>current_led_state\<close> and the lines follow that value) and
  resets \<open>press_count\<close> to 0 afterwards. Over every sequence of events in which the
  worker does not run and no reset command is given, the work stays pending and
  \<open>press_count\<close> is the count at the start plus the number of presses accepted since
  (modulo \<open>2 ^ 32\<close>); this sum is what the worker then processes. So the worker processes
  the count at completion when no press is accepted in between, and the presses of a new
  gesture accepted in between are counted in.
\<close>

theorem handoff_reads_live_count:
  "press_count (timer_expire s) = press_count s
   \<and> (press_timer s \<noteq> None \<and> 0 < sint (press_count s) \<longrightarrow> button_work (timer_expire s))
   \<and> (\<not> time_before t (last_irq_time s + m2j DEBOUNCE_TIME_MS) \<longrightarrow>
        press_count (button_irq_handler m2j t j s) = press_count s + 1
        \<and> (5 \<le> sint (press_count s + 1) \<longrightarrow> button_work (button_irq_handler m2j t j s)))
   \<and> (button_work s \<longrightarrow>
        dispatches (klog (work_run s)) = dispatches (klog s) @ [press_count s]
        \<and> current_led_state (work_run s) =
            (if press_count s = 1 then 1 else if press_count s = 2 then 2
             else if press_count s = 3 then 3 else if press_count s = 4 then 4 else 0)
        \<and> press_count (work_run s) = 0
        \<and> \<not> button_work (work_run s))
   \<and> (button_work s \<and> led_gpios s = [Some 0, Some 1, Some 2] \<and> length (gpio_value s) = 3 \<longrightarrow>
        gpio_value (work_run s) =
            (if press_count s = 1 then [True, False, False]
             else if press_count s = 2 then [False, True, False]
             else if press_count s = 3 then [False, False, True]
             else if press_count s = 4 then [True, True, True]
             else [False, False, False]))
   \<and> (button_work s \<and> list_all (\<lambda>e. \<not> is_reset e \<and> \<not> is_work_run e) evs \<longrightarrow>
        button_work (run m2j evs s)
        \<and> press_count (run m2j evs s) = press_count s + of_nat (accepted_count m2j evs s)
        \<and> dispatches (klog (run m2j (evs @ [Work_run]) s))
             = dispatches (klog s) @ [press_count s + of_nat (accepted_count m2j evs s)]
        \<and> current_led_state (run m2j (evs @ [Work_run]) s) =
            (if press_count s + of_nat (accepted_count m2j evs s) = 1 then 1
             else if press_count s + of_nat (accepted_count m2j evs s) = 2 then 2
             else if press_count s + of_nat (accepted_count m2j evs s) = 3 then 3
             else if press_count s + of_nat (accepted_count m2j evs s) = 4 then 4 else 0)
        \<and> press_count (run m2j (evs @ [Work_run]) s) = 0)"
proof (intro conjI impI)
  show "press_count (timer_expire s) = press_count s"
    by (simp add: timer_expire_eq)
next
  assume "press_timer s \<noteq> None \<and> 0 < sint (press_count s)"
  then show "button_work (timer_expire s)"
    by (simp add: timer_expire_eq)
next
  assume a: "\<not> time_before t (last_irq_time s + m2j DEBOUNCE_TIME_MS)"
  then show "press_count (button_irq_handler m2j t j s) = press_count s + 1"
    by (simp add: irq_frame)
  assume "5 \<le> sint (press_count s + 1)"
  with a show "button_work (button_irq_handler m2j t j s)"
    by (simp add: irq_frame)
next
  assume b: "button_work s"
  show "dispatches (klog (work_run s)) = dispatches (klog s) @ [press_count s]"
    using b by (simp add: work_run_def handler_frame)
  show "current_led_state (work_run s) =
            (if press_count s = 1 then 1 else if press_count s = 2 then 2
             else if press_count s = 3 then 3 else if press_count s = 4 then 4 else 0)"
    using b by (simp add: work_run_def handler_frame)
  show "press_count (work_run s) = 0"
    using b by (simp add: work_run_def handler_frame)
  show "\<not> button_work (work_run s)"
    using b by (simp add: work_run_def handler_frame)
next
  assume h: "button_work s \<and> led_gpios s = [Some 0, Some 1, Some 2] \<and> length (gpio_value s) = 3"
  then obtain a b c where v: "gpio_value s = [a, b, c]"
    using length_3_cases by blast
  have g: "led_gpios (s\<lparr>button_work := False\<rparr>) = [Some 0, Some 1, Some 2]"
    using h by simp
  show "gpio_value (work_run s) =
            (if press_count s = 1 then [True, False, False]
             else if press_count s = 2 then [False, True, False]
             else if press_count s = 3 then [False, False, True]
             else if press_count s = 4 then [True, True, True]
             else [False, False, False])"
    using h by (simp add: work_run_def handler_probed [OF g] v)
next
  assume h: "button_work s \<and> list_all (\<lambda>e. \<not> is_reset e \<and> \<not> is_work_run e) evs"
  let ?s' = "run m2j evs s"
  let ?n = "press_count s + of_nat (accepted_count m2j evs s)"
  have r: "button_work ?s' \<and> press_count ?s' = ?n \<and> dispatches (klog ?s') = dispatches (klog s)"
    using h by (intro run_between) simp_all
  show "button_work ?s'" using r by simp
  show "press_count ?s' = ?n" using r by simp
  have w: "run m2j (evs @ [Work_run]) s = button_work_handler (?s'\<lparr>button_work := False\<rparr>)"
    using r by (simp add: run_append run_Cons run_Nil work_run_def)
  show "dispatches (klog (run m2j (evs @ [Work_run]) s)) = dispatches (klog s) @ [?n]"
    unfolding w using r by (simp add: handler_frame)
  show "current_led_state (run m2j (evs @ [Work_run]) s) =
            (if ?n = 1 then 1 else if ?n = 2 then 2 else if ?n = 3 then 3
             else if ?n = 4 then 4 else 0)"
    unfolding w using r by (simp add: handler_frame)
  show "press_count (run m2j (evs @ [Work_run]) s) = 0"
    unfolding w by (simp add: handler_frame)
qed

theorem handoff_reads_live_count_witness:
  "button_work (timer_expire (after_probe\<lparr>press_count := 4, press_timer := Some 300, button_work := True\<rparr>))
   \<and> press_count (timer_expire
        (after_probe\<lparr>press_count := 4, press_timer := Some 300, button_work := True\<rparr>)) = 4
   \<and> press_count (button_irq_handler (msecs_to_jiffies_hz 100) 100 100
        (after_probe\<lparr>press_count := 4, press_timer := Some 300, button_work := True\<rparr>)) = 5
   \<and> dispatches (klog (work_run
        (after_probe\<lparr>press_count := 4, press_timer := Some 300, button_work := True\<rparr>))) = [4]
   \<and> gpio_value (work_run
        (after_probe\<lparr>press_count := 4, press_timer := Some 300, button_work := True\<rparr>))
        = [True, True, True]
   \<and> press_count (run (msecs_to_jiffies_hz 100) [Irq 100 100, Read True 200 0]
        (after_probe\<lparr>press_count := 4, press_timer := Some 300, button_work := True\<rparr>)) = 5
   \<and> dispatches (klog (run (msecs_to_jiffies_hz 100) [Irq 100 100, Read True 200 0, Work_run]
        (after_probe\<lparr>press_count := 4, press_timer := Some 300, button_work := True\<rparr>))) = [5]
   \<and> current_led_state (run (msecs_to_jiffies_hz 100) [Irq 100 100, Read True 200 0, Work_run]
        (after_probe\<lparr>press_count := 4, press_timer := Some 300, button_work := True\<rparr>)) = 0"
proof -
  let ?s = "after_probe\<lparr>press_count := 4, press_timer := Some 300, button_work := True\<rparr>"
  let ?m = "msecs_to_jiffies_hz 100"
  have a: "\<not> time_before 100 (last_irq_time ?s + ?m DEBOUNCE_TIME_MS)"
    by (simp add: time_before_def msecs_to_jiffies_hz_def DEBOUNCE_TIME_MS_def after_probe_def)
  have b: "button_work ?s" "press_count ?s = 4" "klog ?s = []" "press_timer ?s \<noteq> None"
    "length (gpio_value ?s) = 3"
    by (simp_all add: after_probe_def)
  have g: "led_gpios ?s = [Some 0, Some 1, Some 2]"
    by (simp add: after_probe_led_gpios)
  have q: "list_all (\<lambda>e. \<not> is_reset e \<and> \<not> is_work_run e) [Irq 100 100, Read True 200 0]"
    by simp
  have c: "accepted_count ?m [Irq 100 100, Read True 200 0] ?s = 1"
    using a by simp
  show ?thesis
    using handoff_reads_live_count [where s = ?s and t = 100 and j = 100 and m2j = ?m
        and evs = "[Irq 100 100, Read True 200 0]"] a b g q c
    by simp
qed

section \<open>Invariants of the reachable states\<close>

text \<open>
  The three descriptors and the three lines assumed in the statements about the actuation
  are there in every state reached from the probed state.
\<close>

lemma step_probed:
  assumes "led_gpios s = [Some 0, Some 1, Some 2] \<and> length (gpio_value s) = 3"
  shows "led_gpios (step m2j e s) = [Some 0, Some 1, Some 2] \<and> length (gpio_value (step m2j e s)) = 3"
proof (cases e)
  case (Irq t j)
  then show ?thesis using assms
    by (cases "time_before t (last_irq_time s + m2j DEBOUNCE_TIME_MS)")
       (simp_all add: irq_rejected irq_accepted)
next
  case Timer_expire
  then show ?thesis using assms by (simp add: timer_expire_eq)
next
  case Work_run
  then show ?thesis using assms by (simp add: work_run_def handler_probed)
next
  case (Read copy_ok len offset)
  then show ?thesis using assms by (simp add: button_read_def Let_def)
next
  case (Write ubuf len)
  then show ?thesis using assms
    by (simp add: button_write_def Let_def pr_info_def turn_off_all_leds_probed)
next
  case (Led_write i ubuf len)
  then show ?thesis using assms
    by (simp add: led_write_def Let_def pr_info_def gpiod_set_value_def)
qed

lemma run_probed:
  "led_gpios (run m2j evs after_probe) = [Some 0, Some 1, Some 2]
   \<and> length (gpio_value (run m2j evs after_probe)) = 3"
proof -
  have "led_gpios s = [Some 0, Some 1, Some 2] \<and> length (gpio_value s) = 3 \<Longrightarrow>
        led_gpios (run m2j evs s) = [Some 0, Some 1, Some 2]
        \<and> length (gpio_value (run m2j evs s)) = 3" for s
  proof (induction evs arbitrary: s)
    case Nil
    then show ?case by (simp add: run_def)
  next
    case (Cons e evs)
    have "led_gpios (step m2j e s) = [Some 0, Some 1, Some 2]
        \<and> length (gpio_value (step m2j e s)) = 3"
      using Cons.prems by (rule step_probed)
    then have "led_gpios (run m2j evs (step m2j e s)) = [Some 0, Some 1, Some 2]
        \<and> length (gpio_value (run m2j evs (step m2j e s))) = 3"
      by (rule Cons.IH)
    then show ?case by (simp add: run_def)
  qed
  moreover have "led_gpios after_probe = [Some 0, Some 1, Some 2] \<and> length (gpio_value after_probe) = 3"
    by (simp add: after_probe_led_gpios) (simp add: after_probe_def)
  ultimately show ?thesis by blast
qed

lemma step_led_state_range:
  assumes "current_led_state s \<in> {0, 1, 2, 3, 4}"
  shows "current_led_state (step m2j e s) \<in> {0, 1, 2, 3, 4}"
proof (cases e)
  case (Irq t j)
  then show ?thesis using assms
    by (cases "time_before t (last_irq_time s + m2j DEBOUNCE_TIME_MS)")
       (simp_all add: irq_rejected irq_accepted)
next
  case Timer_expire
  then show ?thesis using assms by (simp add: timer_expire_eq)
next
  case Work_run
  then show ?thesis using assms by (simp add: work_run_def handler_frame)
next
  case (Read copy_ok len offset)
  then show ?thesis using assms by (simp add: button_read_def Let_def)
next
  case (Write ubuf len)
  then show ?thesis using assms
    by (simp add: button_write_def Let_def pr_info_def turn_off_all_leds_frame)
next
  case (Led_write i ubuf len)
  then show ?thesis using assms
    by (simp add: led_write_def Let_def pr_info_def gpiod_set_value_def)
qed

lemma run_led_state_range:
  "current_led_state s \<in> {0, 1, 2, 3, 4} \<Longrightarrow> current_led_state (run m2j evs s) \<in> {0, 1, 2, 3, 4}"
proof (induction evs arbitrary: s)
  case Nil
  then show ?case by (simp add: run_def)
next
  case (Cons e evs)
  have "current_led_state (step m2j e s) \<in> {0, 1, 2, 3, 4}"
    using Cons.prems by (rule step_led_state_range)
  then have "current_led_state (run m2j evs (step m2j e s)) \<in> {0, 1, 2, 3, 4}"
    by (rule Cons.IH)
  then show ?case by (simp add: run_def)
qed

text \<open>
  C10. In every state the driver reaches from the probed state, whatever the interrupts,
  timer expiries, worker runs, reads and writes, \<open>current_led_state\<close> is one of 0, 1, 2,
  3, 4, so the status text never takes the branch \<open>Unknown state\<close>.
\<close>

theorem led_state_range:
  "current_led_state (run m2j evs after_probe) \<in> {0, 1, 2, 3, 4}
   \<and> led_status_of (current_led_state (run m2j evs after_probe)) \<noteq> ''Unknown state''"
proof -
  have "current_led_state after_probe \<in> {0, 1, 2, 3, 4}"
    by (simp add: after_probe_def)
  then have r: "current_led_state (run m2j evs after_probe) \<in> {0, 1, 2, 3, 4}"
    by (rule run_led_state_range)
  then show ?thesis
    by (auto simp: led_status_of_def)
qed


section \<open>One dispatch for each completion\<close>

lemma work_run_idle: "\<not> button_work s \<Longrightarrow> work_run s = s"
  by (simp add: work_run_def)

lemma work_run_pending:
  "button_work s \<Longrightarrow> work_run s = button_work_handler (s\<lparr>button_work := False\<rparr>)"
  by (simp add: work_run_def)

text \<open>
  C2, as stated, fails when the worker is late. Five accepted presses schedule the work
  with a count of 5; a sixth press accepted before the worker runs makes the count 6, and
  the only dispatch of the whole run carries 6, none carries 5. And after a press and the
  expiry of its deadline, a second press and the expiry of its deadline (both expiries
  with a positive count, 1 and 2), the worker runs the handler once, with 2: the second
  expiry finds the work pending and adds no dispatch.
\<close>

theorem late_worker_counterexample:
  "button_work (run (msecs_to_jiffies_hz 100)
      [Irq 100 100, Irq 110 110, Irq 120 120, Irq 130 130, Irq 140 140] after_probe)
   \<and> press_count (run (msecs_to_jiffies_hz 100)
      [Irq 100 100, Irq 110 110, Irq 120 120, Irq 130 130, Irq 140 140] after_probe) = 5
   \<and> dispatches (klog (run (msecs_to_jiffies_hz 100)
      [Irq 100 100, Irq 110 110, Irq 120 120, Irq 130 130, Irq 140 140, Irq 150 150,
       Work_run, Timer_expire, Work_run] after_probe)) = [6]
   \<and> press_count (run (msecs_to_jiffies_hz 100) [Irq 100 100] after_probe) = 1
   \<and> press_timer (run (msecs_to_jiffies_hz 100) [Irq 100 100] after_probe) = Some 200
   \<and> press_count (run (msecs_to_jiffies_hz 100)
      [Irq 100 100, Timer_expire, Irq 201 201] after_probe) = 2
   \<and> press_timer (run (msecs_to_jiffies_hz 100)
      [Irq 100 100, Timer_expire, Irq 201 201] after_probe) = Some 301
   \<and> dispatches (klog (run (msecs_to_jiffies_hz 100)
      [Irq 100 100, Timer_expire, Irq 201 201, Timer_expire, Work_run, Work_run] after_probe)) = [2]"
proof -
  let ?m = "msecs_to_jiffies_hz 100"
  have d: "?m DEBOUNCE_TIME_MS = 5" "?m MULTI_PRESS_TIMEOUT_MS = 100"
    by (simp_all add: msecs_to_jiffies_hz_def DEBOUNCE_TIME_MS_def MULTI_PRESS_TIMEOUT_MS_def)
  have s1: "run ?m [Irq 100 100] after_probe =
      after_probe\<lparr>press_count := 1, button_pressed := True, last_irq_time := 100,
        press_timer := Some 200, klog := [Button_pressed_Count 1]\<rparr>"
    by (simp add: run_def button_irq_handler_def d time_before_def after_probe_def Let_def
        pr_info_def mod_timer_def)
  have s2: "run ?m [Irq 100 100, Irq 110 110] after_probe =
      after_probe\<lparr>press_count := 2, button_pressed := True, last_irq_time := 110,
        press_timer := Some 210, klog := [Button_pressed_Count 1, Button_pressed_Count 2]\<rparr>"
    using s1
    by (simp add: run_def button_irq_handler_def d time_before_def after_probe_def Let_def
        pr_info_def mod_timer_def)
  have s3: "run ?m [Irq 100 100, Irq 110 110, Irq 120 120] after_probe =
      after_probe\<lparr>press_count := 3, button_pressed := True, last_irq_time := 120,
        press_timer := Some 220,
        klog := [Button_pressed_Count 1, Button_pressed_Count 2, Button_pressed_Count 3]\<rparr>"
    using s2
    by (simp add: run_def button_irq_handler_def d time_before_def after_probe_def Let_def
        pr_info_def mod_timer_def)
  have s4: "run ?m [Irq 100 100, Irq 110 110, Irq 120 120, Irq 130 130] after_probe =
      after_probe\<lparr>press_count := 4, button_pressed := True, last_irq_time := 130,
        press_timer := Some 230,
        klog := [Button_pressed_Count 1, Button_pressed_Count 2, Button_pressed_Count 3,
          Button_pressed_Count 4]\<rparr>"
    using s3
    by (simp add: run_def button_irq_handler_def d time_before_def after_probe_def Let_def
        pr_info_def mod_timer_def)
  have s5: "run ?m [Irq 100 100, Irq 110 110, Irq 120 120, Irq 130 130, Irq 140 140] after_probe =
      after_probe\<lparr>press_count := 5, button_pressed := True, last_irq_time := 140,
        press_timer := None, button_work := True,
        klog := [Button_pressed_Count 1, Button_pressed_Count 2, Button_pressed_Count 3,
          Button_pressed_Count 4, Button_pressed_Count 5]\<rparr>"
    using s4
    by (simp add: run_def button_irq_handler_def d time_before_def after_probe_def Let_def
        pr_info_def mod_timer_def del_timer_def schedule_work_def)
  have s6: "run ?m [Irq 100 100, Irq 110 110, Irq 120 120, Irq 130 130, Irq 140 140, Irq 150 150]
        after_probe =
      after_probe\<lparr>press_count := 6, button_pressed := True, last_irq_time := 150,
        press_timer := None, button_work := True,
        klog := [Button_pressed_Count 1, Button_pressed_Count 2, Button_pressed_Count 3,
          Button_pressed_Count 4, Button_pressed_Count 5, Button_pressed_Count 6]\<rparr>"
    using s5
    by (simp add: run_def button_irq_handler_def d time_before_def after_probe_def Let_def
        pr_info_def mod_timer_def del_timer_def schedule_work_def)
  have six: "dispatches (klog (run ?m
      [Irq 100 100, Irq 110 110, Irq 120 120, Irq 130 130, Irq 140 140, Irq 150 150,
       Work_run, Timer_expire, Work_run] after_probe)) = [6]"
    using s6
    by (simp add: run_def work_run_def handler_frame timer_expire_eq after_probe_def)
  have t3: "run ?m [Irq 100 100, Timer_expire, Irq 201 201] after_probe =
      after_probe\<lparr>press_count := 2, button_pressed := True, last_irq_time := 201,
        press_timer := Some 301, button_work := True,
        klog := [Button_pressed_Count 1, Button_pressed_Count 2]\<rparr>"
    using s1
    by (simp add: run_def timer_expire_eq button_irq_handler_def d time_before_def after_probe_def
        Let_def pr_info_def mod_timer_def)
  have two: "dispatches (klog (run ?m
      [Irq 100 100, Timer_expire, Irq 201 201, Timer_expire, Work_run, Work_run] after_probe)) = [2]"
    using t3
    by (simp add: run_def work_run_def handler_frame timer_expire_eq after_probe_def)
  show ?thesis
    using six two by (simp add: s1 s5 t3)
qed

text \<open>
  C2, amended. Over every sequence of events, the number of runs of the handler, plus one
  if the work is pending at the end, is the number of events that set the pending bit,
  plus one if the work was pending at the start: a completion that finds no work pending
  gives exactly one dispatch, and one that finds the work pending gives none of its own.
  An accepted press leaves the work pending exactly when it was pending before or the
  press brings the count to 5 or more, and in the latter case the timer it has just armed
  is deactivated, otherwise the timer is armed with the new deadline. An expiry leaves the
  work pending exactly when it was pending before or the timer was armed with a positive
  count; with a count that is not positive it changes nothing but the timer. A worker run
  with no work pending does nothing; with work pending it processes the count it finds:
  one log entry, the lines and \<open>current_led_state\<close> set for that count, the count reset
  to 0, the work no longer pending. In particular, from a state with a count of 0 and no
  work pending, five accepted presses with nothing in between set the pending bit once,
  at the fifth press, with the timer deactivated, so that a later expiry changes nothing;
  if the worker runs next it processes 5 once and leaves all lines low, and running it
  again does nothing.
\<close>

theorem one_dispatch_per_completion:
  "length (dispatches (klog (run m2j evs s))) + (if button_work (run m2j evs s) then 1 else 0)
     = length (dispatches (klog s)) + (if button_work s then 1 else 0) + scheduled_count m2j evs s
   \<and> (\<not> time_before t (last_irq_time s + m2j DEBOUNCE_TIME_MS) \<longrightarrow>
        button_work (button_irq_handler m2j t j s)
          = (button_work s \<or> 5 \<le> sint (press_count s + 1))
        \<and> press_timer (button_irq_handler m2j t j s)
          = (if 5 \<le> sint (press_count s + 1) then None
             else Some (j + m2j MULTI_PRESS_TIMEOUT_MS)))
   \<and> button_work (timer_expire s)
        = (button_work s \<or> (press_timer s \<noteq> None \<and> 0 < sint (press_count s)))
   \<and> press_timer (timer_expire s) = None
   \<and> (\<not> 0 < sint (press_count s) \<longrightarrow> timer_expire s = s\<lparr>press_timer := None\<rparr>)
   \<and> (\<not> button_work s \<longrightarrow> work_run s = s)
   \<and> (button_work s \<and> led_gpios s = [Some 0, Some 1, Some 2] \<and> length (gpio_value s) = 3 \<longrightarrow>
        dispatches (klog (work_run s)) = dispatches (klog s) @ [press_count s]
        \<and> gpio_value (work_run s) = (if press_count s = 1 then [True, False, False]
             else if press_count s = 2 then [False, True, False]
             else if press_count s = 3 then [False, False, True]
             else if press_count s = 4 then [True, True, True]
             else [False, False, False])
        \<and> current_led_state (work_run s) = (if press_count s = 1 then 1 else if press_count s = 2 then 2
             else if press_count s = 3 then 3 else if press_count s = 4 then 4 else 0)
        \<and> press_count (work_run s) = 0
        \<and> \<not> button_work (work_run s))
   \<and> (press_timer s \<noteq> None \<and> 0 < sint (press_count s) \<longrightarrow>
        dispatches (klog (work_run (timer_expire s))) = dispatches (klog s) @ [press_count s]
        \<and> current_led_state (work_run (timer_expire s)) = (if press_count s = 1 then 1 else if press_count s = 2 then 2
             else if press_count s = 3 then 3 else if press_count s = 4 then 4 else 0)
        \<and> work_run (work_run (timer_expire s)) = work_run (timer_expire s))
   \<and> (press_count s = 0 \<and> \<not> button_work s
      \<and> led_gpios s = [Some 0, Some 1, Some 2] \<and> length (gpio_value s) = 3
      \<and> \<not> time_before t1 (last_irq_time s + m2j DEBOUNCE_TIME_MS)
      \<and> \<not> time_before t2 (t1 + m2j DEBOUNCE_TIME_MS)
      \<and> \<not> time_before t3 (t2 + m2j DEBOUNCE_TIME_MS)
      \<and> \<not> time_before t4 (t3 + m2j DEBOUNCE_TIME_MS)
      \<and> \<not> time_before t5 (t4 + m2j DEBOUNCE_TIME_MS) \<longrightarrow>
      \<not> button_work (run m2j [Irq t1 j1] s)
      \<and> \<not> button_work (run m2j [Irq t1 j1, Irq t2 j2] s)
      \<and> \<not> button_work (run m2j [Irq t1 j1, Irq t2 j2, Irq t3 j3] s)
      \<and> \<not> button_work (run m2j [Irq t1 j1, Irq t2 j2, Irq t3 j3, Irq t4 j4] s)
      \<and> press_timer (run m2j [Irq t1 j1, Irq t2 j2, Irq t3 j3, Irq t4 j4] s) = Some (j4 + m2j MULTI_PRESS_TIMEOUT_MS)
      \<and> button_work (run m2j [Irq t1 j1, Irq t2 j2, Irq t3 j3, Irq t4 j4, Irq t5 j5] s)
      \<and> press_count (run m2j [Irq t1 j1, Irq t2 j2, Irq t3 j3, Irq t4 j4, Irq t5 j5] s) = 5
      \<and> press_timer (run m2j [Irq t1 j1, Irq t2 j2, Irq t3 j3, Irq t4 j4, Irq t5 j5] s) = None
      \<and> scheduled_count m2j [Irq t1 j1, Irq t2 j2, Irq t3 j3, Irq t4 j4, Irq t5 j5] s = 1
      \<and> run m2j [Irq t1 j1, Irq t2 j2, Irq t3 j3, Irq t4 j4, Irq t5 j5, Timer_expire] s = run m2j [Irq t1 j1, Irq t2 j2, Irq t3 j3, Irq t4 j4, Irq t5 j5] s
      \<and> dispatches (klog (run m2j [Irq t1 j1, Irq t2 j2, Irq t3 j3, Irq t4 j4, Irq t5 j5, Work_run] s)) = dispatches (klog s) @ [5]
      \<and> gpio_value (run m2j [Irq t1 j1, Irq t2 j2, Irq t3 j3, Irq t4 j4, Irq t5 j5, Work_run] s) = [False, False, False]
      \<and> current_led_state (run m2j [Irq t1 j1, Irq t2 j2, Irq t3 j3, Irq t4 j4, Irq t5 j5, Work_run] s) = 0
      \<and> press_count (run m2j [Irq t1 j1, Irq t2 j2, Irq t3 j3, Irq t4 j4, Irq t5 j5, Work_run] s) = 0
      \<and> run m2j [Irq t1 j1, Irq t2 j2, Irq t3 j3, Irq t4 j4, Irq t5 j5, Work_run, Work_run] s = run m2j [Irq t1 j1, Irq t2 j2, Irq t3 j3, Irq t4 j4, Irq t5 j5, Work_run] s)"
proof (intro conjI impI)
  show "length (dispatches (klog (run m2j evs s))) + (if button_work (run m2j evs s) then 1 else 0)
     = length (dispatches (klog s)) + (if button_work s then 1 else 0) + scheduled_count m2j evs s"
    by (rule run_dispatch_balance)
next
  assume a: "\<not> time_before t (last_irq_time s + m2j DEBOUNCE_TIME_MS)"
  show "button_work (button_irq_handler m2j t j s)
          = (button_work s \<or> 5 \<le> sint (press_count s + 1))"
    using a by (simp add: irq_frame)
  show "press_timer (button_irq_handler m2j t j s)
          = (if 5 \<le> sint (press_count s + 1) then None
             else Some (j + m2j MULTI_PRESS_TIMEOUT_MS))"
    using a by (simp add: irq_accepted)
next
  show "button_work (timer_expire s)
        = (button_work s \<or> (press_timer s \<noteq> None \<and> 0 < sint (press_count s)))"
    by (simp add: timer_expire_eq)
next
  show "press_timer (timer_expire s) = None"
    by (simp add: timer_expire_eq)
next
  assume "\<not> 0 < sint (press_count s)"
  then show "timer_expire s = s\<lparr>press_timer := None\<rparr>"
    by (simp add: timer_expire_eq)
next
  assume "\<not> button_work s"
  then show "work_run s = s" by (rule work_run_idle)
next
  assume h: "button_work s \<and> led_gpios s = [Some 0, Some 1, Some 2] \<and> length (gpio_value s) = 3"
  then obtain a b c where v: "gpio_value s = [a, b, c]"
    using length_3_cases by blast
  have g: "led_gpios (s\<lparr>button_work := False\<rparr>) = [Some 0, Some 1, Some 2]"
    using h by simp
  show "dispatches (klog (work_run s)) = dispatches (klog s) @ [press_count s]"
    using h by (simp add: work_run_def handler_frame)
  show "gpio_value (work_run s) = (if press_count s = 1 then [True, False, False]
             else if press_count s = 2 then [False, True, False]
             else if press_count s = 3 then [False, False, True]
             else if press_count s = 4 then [True, True, True]
             else [False, False, False])"
    using h by (simp add: work_run_def handler_probed [OF g] v)
  show "current_led_state (work_run s) = (if press_count s = 1 then 1 else if press_count s = 2 then 2
             else if press_count s = 3 then 3 else if press_count s = 4 then 4 else 0)"
    using h by (simp add: work_run_def handler_frame)
  show "press_count (work_run s) = 0"
    using h by (simp add: work_run_def handler_frame)
  show "\<not> button_work (work_run s)"
    using h by (simp add: work_run_def handler_frame)
next
  assume a: "press_timer s \<noteq> None \<and> 0 < sint (press_count s)"
  then have e: "timer_expire s = s\<lparr>press_timer := None, button_work := True\<rparr>"
    by (simp add: timer_expire_eq)
  show "dispatches (klog (work_run (timer_expire s))) = dispatches (klog s) @ [press_count s]"
    by (simp add: e work_run_def handler_frame)
  show "current_led_state (work_run (timer_expire s)) = (if press_count s = 1 then 1 else if press_count s = 2 then 2
             else if press_count s = 3 then 3 else if press_count s = 4 then 4 else 0)"
    by (simp add: e work_run_def handler_frame)
  show "work_run (work_run (timer_expire s)) = work_run (timer_expire s)"
    by (rule work_run_idle) (simp add: e work_run_def handler_frame)
next
  assume h: "press_count s = 0 \<and> \<not> button_work s
      \<and> led_gpios s = [Some 0, Some 1, Some 2] \<and> length (gpio_value s) = 3
      \<and> \<not> time_before t1 (last_irq_time s + m2j DEBOUNCE_TIME_MS)
      \<and> \<not> time_before t2 (t1 + m2j DEBOUNCE_TIME_MS)
      \<and> \<not> time_before t3 (t2 + m2j DEBOUNCE_TIME_MS)
      \<and> \<not> time_before t4 (t3 + m2j DEBOUNCE_TIME_MS)
      \<and> \<not> time_before t5 (t4 + m2j DEBOUNCE_TIME_MS)"
  then obtain a b c where v: "gpio_value s = [a, b, c]"
    using length_3_cases by blast
  let ?T = "m2j MULTI_PRESS_TIMEOUT_MS"
  have s1: "button_irq_handler m2j t1 j1 s =
      s\<lparr>press_count := 1, button_pressed := True, last_irq_time := t1,
        press_timer := Some (j1 + ?T), klog := klog s @ [Button_pressed_Count 1]\<rparr>"
    using h by (simp add: irq_accepted)
  have s2: "button_irq_handler m2j t2 j2 (button_irq_handler m2j t1 j1 s) =
      s\<lparr>press_count := 2, button_pressed := True, last_irq_time := t2,
        press_timer := Some (j2 + ?T),
        klog := klog s @ [Button_pressed_Count 1, Button_pressed_Count 2]\<rparr>"
    unfolding s1 using h by (simp add: irq_accepted)
  have s3: "button_irq_handler m2j t3 j3
        (button_irq_handler m2j t2 j2 (button_irq_handler m2j t1 j1 s)) =
      s\<lparr>press_count := 3, button_pressed := True, last_irq_time := t3,
        press_timer := Some (j3 + ?T),
        klog := klog s @ [Button_pressed_Count 1, Button_pressed_Count 2, Button_pressed_Count 3]\<rparr>"
    unfolding s2 using h by (simp add: irq_accepted)
  have s4: "button_irq_handler m2j t4 j4 (button_irq_handler m2j t3 j3
        (button_irq_handler m2j t2 j2 (button_irq_handler m2j t1 j1 s))) =
      s\<lparr>press_count := 4, button_pressed := True, last_irq_time := t4,
        press_timer := Some (j4 + ?T),
        klog := klog s @ [Button_pressed_Count 1, Button_pressed_Count 2, Button_pressed_Count 3,
          Button_pressed_Count 4]\<rparr>"
    unfolding s3 using h by (simp add: irq_accepted)
  have s5: "button_irq_handler m2j t5 j5 (button_irq_handler m2j t4 j4 (button_irq_handler m2j t3 j3
        (button_irq_handler m2j t2 j2 (button_irq_handler m2j t1 j1 s)))) =
      s\<lparr>press_count := 5, button_pressed := True, last_irq_time := t5,
        press_timer := None, button_work := True,
        klog := klog s @ [Button_pressed_Count 1, Button_pressed_Count 2, Button_pressed_Count 3,
          Button_pressed_Count 4, Button_pressed_Count 5]\<rparr>"
    unfolding s4 using h by (simp add: irq_accepted)
  show "\<not> button_work (run m2j [Irq t1 j1] s)"
    using h by (simp add: run_def s1)
  show "\<not> button_work (run m2j [Irq t1 j1, Irq t2 j2] s)"
    using h by (simp add: run_def s2)
  show "\<not> button_work (run m2j [Irq t1 j1, Irq t2 j2, Irq t3 j3] s)"
    using h by (simp add: run_def s3)
  show "\<not> button_work (run m2j [Irq t1 j1, Irq t2 j2, Irq t3 j3, Irq t4 j4] s)"
    using h by (simp add: run_def s4)
  show "press_timer (run m2j [Irq t1 j1, Irq t2 j2, Irq t3 j3, Irq t4 j4] s) = Some (j4 + m2j MULTI_PRESS_TIMEOUT_MS)"
    by (simp add: run_def s4)
  show "button_work (run m2j [Irq t1 j1, Irq t2 j2, Irq t3 j3, Irq t4 j4, Irq t5 j5] s)"
    by (simp add: run_def s5)
  show "press_count (run m2j [Irq t1 j1, Irq t2 j2, Irq t3 j3, Irq t4 j4, Irq t5 j5] s) = 5"
    by (simp add: run_def s5)
  show "press_timer (run m2j [Irq t1 j1, Irq t2 j2, Irq t3 j3, Irq t4 j4, Irq t5 j5] s) = None"
    by (simp add: run_def s5)
  show "scheduled_count m2j [Irq t1 j1, Irq t2 j2, Irq t3 j3, Irq t4 j4, Irq t5 j5] s = 1"
    using run_dispatch_balance [of m2j "[Irq t1 j1, Irq t2 j2, Irq t3 j3, Irq t4 j4, Irq t5 j5]" s] h
    by (simp add: run_def s5 dispatches_append)
  show "run m2j [Irq t1 j1, Irq t2 j2, Irq t3 j3, Irq t4 j4, Irq t5 j5, Timer_expire] s = run m2j [Irq t1 j1, Irq t2 j2, Irq t3 j3, Irq t4 j4, Irq t5 j5] s"
    by (simp add: run_def s5 timer_expire_def)
  show "dispatches (klog (run m2j [Irq t1 j1, Irq t2 j2, Irq t3 j3, Irq t4 j4, Irq t5 j5, Work_run] s)) = dispatches (klog s) @ [5]"
    by (simp add: run_def s5 work_run_def handler_frame dispatches_append)
  show "gpio_value (run m2j [Irq t1 j1, Irq t2 j2, Irq t3 j3, Irq t4 j4, Irq t5 j5, Work_run] s) = [False, False, False]"
    using h by (simp add: run_def s5 work_run_def handler_probed v)
  show "current_led_state (run m2j [Irq t1 j1, Irq t2 j2, Irq t3 j3, Irq t4 j4, Irq t5 j5, Work_run] s) = 0"
    by (simp add: run_def s5 work_run_def handler_frame)
  show "press_count (run m2j [Irq t1 j1, Irq t2 j2, Irq t3 j3, Irq t4 j4, Irq t5 j5, Work_run] s) = 0"
    by (simp add: run_def s5 work_run_def handler_frame)
  show "run m2j [Irq t1 j1, Irq t2 j2, Irq t3 j3, Irq t4 j4, Irq t5 j5, Work_run, Work_run] s = run m2j [Irq t1 j1, Irq t2 j2, Irq t3 j3, Irq t4 j4, Irq t5 j5, Work_run] s"
    by (simp add: run_def s5 work_run_def handler_frame)
qed

theorem one_dispatch_per_completion_witness:
  "scheduled_count (msecs_to_jiffies_hz 100) [Irq 100 100, Irq 110 110, Irq 120 120, Irq 130 130, Irq 140 140] after_probe = 1
   \<and> button_work (run (msecs_to_jiffies_hz 100) [Irq 100 100, Irq 110 110, Irq 120 120, Irq 130 130, Irq 140 140] after_probe)
   \<and> press_timer (run (msecs_to_jiffies_hz 100) [Irq 100 100, Irq 110 110, Irq 120 120, Irq 130 130, Irq 140 140] after_probe) = None
   \<and> dispatches (klog (run (msecs_to_jiffies_hz 100) [Irq 100 100, Irq 110 110, Irq 120 120, Irq 130 130, Irq 140 140, Work_run] after_probe)) = [5]
   \<and> gpio_value (run (msecs_to_jiffies_hz 100) [Irq 100 100, Irq 110 110, Irq 120 120, Irq 130 130, Irq 140 140, Work_run] after_probe) = [False, False, False]
   \<and> press_timer (button_irq_handler (msecs_to_jiffies_hz 100) 100 100 after_probe) = Some 200
   \<and> timer_expire after_probe = after_probe\<lparr>press_timer := None\<rparr>
   \<and> work_run after_probe = after_probe
   \<and> button_work (timer_expire (after_probe\<lparr>press_count := 2, press_timer := Some 300\<rparr>))
   \<and> dispatches (klog (work_run (timer_expire
        (after_probe\<lparr>press_count := 2, press_timer := Some 300\<rparr>)))) = [2]
   \<and> current_led_state (work_run (timer_expire
        (after_probe\<lparr>press_count := 2, press_timer := Some 300\<rparr>))) = 2
   \<and> gpio_value (work_run (after_probe\<lparr>press_count := 2, button_work := True\<rparr>))
        = [False, True, False]"
proof -
  let ?m = "msecs_to_jiffies_hz 100"
  let ?s = "after_probe\<lparr>press_count := 2, press_timer := Some 300\<rparr>"
  let ?w = "after_probe\<lparr>press_count := 2, button_work := True\<rparr>"
  have d: "?m DEBOUNCE_TIME_MS = 5" "?m MULTI_PRESS_TIMEOUT_MS = 100"
    by (simp_all add: msecs_to_jiffies_hz_def DEBOUNCE_TIME_MS_def MULTI_PRESS_TIMEOUT_MS_def)
  have a: "press_count after_probe = 0" "\<not> button_work after_probe"
    "last_irq_time after_probe = 0" "klog after_probe = []"
    "length (gpio_value after_probe) = 3" "\<not> 0 < sint (press_count after_probe)"
    by (simp_all add: after_probe_def)
  have g: "led_gpios after_probe = [Some 0, Some 1, Some 2]"
    by (rule after_probe_led_gpios)
  have t: "\<not> time_before 100 (0 + 5)" "\<not> time_before 110 (100 + 5)"
    "\<not> time_before 120 (110 + 5)" "\<not> time_before 130 (120 + 5)"
    "\<not> time_before 140 (130 + 5)"
    by (simp_all add: time_before_def)
  have b: "press_timer ?s \<noteq> None" "0 < sint (press_count ?s)" "klog ?s = []" "press_count ?s = 2"
    by (simp_all add: after_probe_def)
  have w: "button_work ?w" "led_gpios ?w = [Some 0, Some 1, Some 2]" "length (gpio_value ?w) = 3"
    "press_count ?w = 2"
    by (simp_all add: after_probe_led_gpios) (simp_all add: after_probe_def)
  show ?thesis
    using one_dispatch_per_completion [where s = after_probe and m2j = ?m and t = 100 and j = 100
        and ?t1.0 = 100 and ?t2.0 = 110 and ?t3.0 = 120 and ?t4.0 = 130 and ?t5.0 = 140
        and ?j1.0 = 100 and ?j2.0 = 110 and ?j3.0 = 120 and ?j4.0 = 130 and ?j5.0 = 140]
      one_dispatch_per_completion [where s = ?s and m2j = ?m]
      one_dispatch_per_completion [where s = ?w and m2j = ?m]
      a g t b w d
    by (simp del: scheduled_count.simps)
qed

section \<open>The reset command\<close>

lemma step_quiet:
  assumes "\<not> is_press e" and "press_count s = 0" and "\<not> button_work s"
  shows "press_count (step m2j e s) = 0 \<and> \<not> button_work (step m2j e s)
         \<and> dispatches (klog (step m2j e s)) = dispatches (klog s)"
proof (cases e)
  case (Irq t j)
  then show ?thesis using assms(1) by simp
next
  case Timer_expire
  then show ?thesis using assms by (simp add: timer_expire_eq)
next
  case Work_run
  then show ?thesis using assms by (simp add: work_run_def)
next
  case (Read copy_ok len offset)
  then show ?thesis using assms by (simp add: button_read_def Let_def)
next
  case (Write ubuf len)
  then show ?thesis using assms
    by (simp add: button_write_def Let_def pr_info_def turn_off_all_leds_frame dispatches_append)
next
  case (Led_write i ubuf len)
  then show ?thesis using assms
    by (simp add: led_write_def Let_def pr_info_def gpiod_set_value_def dispatches_append)
qed

lemma run_quiet:
  assumes "list_all (\<lambda>e. \<not> is_press e) evs" and "press_count s = 0" and "\<not> button_work s"
  shows "\<not> button_work (run m2j evs s) \<and> dispatches (klog (run m2j evs s)) = dispatches (klog s)"
  using assms
proof (induction evs arbitrary: s)
  case Nil
  then show ?case by (simp add: run_def)
next
  case (Cons e evs)
  have q: "press_count (step m2j e s) = 0 \<and> \<not> button_work (step m2j e s)
         \<and> dispatches (klog (step m2j e s)) = dispatches (klog s)"
    using Cons.prems by (intro step_quiet) simp_all
  have "\<not> button_work (run m2j evs (step m2j e s))
      \<and> dispatches (klog (run m2j evs (step m2j e s))) = dispatches (klog (step m2j e s))"
    using Cons.prems q by (intro Cons.IH) simp_all
  then show ?case using q by (simp add: run_def)
qed

text \<open>
  C6. The reset command, also while a gesture is pending, returns successfully, sets
  \<open>press_count\<close> to 0 and \<open>current_led_state\<close> to 0 and writes the three lines low at
  once. The timer armed before stays armed, but its expiry finds a count of 0 and
  schedules nothing: as long as no new press is accepted, no later event makes the work
  pending or lets the handler process anything (no work being pending at the reset); and
  an accepted press replaces the old expiry by its own deadline.
\<close>

theorem reset_clears_pending_gesture:
  assumes "led_gpios s = [Some 0, Some 1, Some 2]" and "length (gpio_value s) = 3"
    and "1 \<le> len"
  shows "fst (button_write (Some (CHR ''r'')) len s) = Inr len
     \<and> press_count (snd (button_write (Some (CHR ''r'')) len s)) = 0
     \<and> current_led_state (snd (button_write (Some (CHR ''r'')) len s)) = 0
     \<and> gpio_value (snd (button_write (Some (CHR ''r'')) len s)) = [False, False, False]
     \<and> gpio_trace (snd (button_write (Some (CHR ''r'')) len s))
           = gpio_trace s @ [(0, False), (1, False), (2, False)]
     \<and> timer_expire (snd (button_write (Some (CHR ''r'')) len s))
           = (snd (button_write (Some (CHR ''r'')) len s))\<lparr>press_timer := None\<rparr>
     \<and> (\<not> button_work s \<and> list_all (\<lambda>e. \<not> is_press e) evs \<longrightarrow>
          \<not> button_work (run m2j evs (snd (button_write (Some (CHR ''r'')) len s)))
          \<and> dispatches (klog (run m2j evs (snd (button_write (Some (CHR ''r'')) len s))))
                = dispatches (klog s))
     \<and> (\<not> time_before t (last_irq_time s + m2j DEBOUNCE_TIME_MS) \<longrightarrow>
          press_timer (button_irq_handler m2j t j (snd (button_write (Some (CHR ''r'')) len s)))
            = Some (j + m2j MULTI_PRESS_TIMEOUT_MS))"
proof -
  obtain a b c where v: "gpio_value s = [a, b, c]"
    using length_3_cases [OF assms(2)] by blast
  let ?s' = "snd (button_write (Some (CHR ''r'')) len s)"
  have w: "button_write (Some (CHR ''r'')) len s =
      (Inr len, s\<lparr>press_count := 0, current_led_state := 0,
         gpio_value := [False, False, False],
         gpio_trace := gpio_trace s @ [(0, False), (1, False), (2, False)],
         klog := klog s @ [All_LEDs_turned_OFF, Button_driver_reset]\<rparr>)"
    using assms(3) by (simp add: button_write_def pr_info_def turn_off_all_leds_probed assms(1) v)
  have quiet: "\<not> button_work (run m2j evs ?s')
        \<and> dispatches (klog (run m2j evs ?s')) = dispatches (klog s)"
    if "\<not> button_work s" and "list_all (\<lambda>e. \<not> is_press e) evs"
  proof -
    have "\<not> button_work (run m2j evs ?s')
        \<and> dispatches (klog (run m2j evs ?s')) = dispatches (klog ?s')"
      using that by (intro run_quiet) (simp_all add: w)
    then show ?thesis by (simp add: w dispatches_append)
  qed
  have rearm: "press_timer (button_irq_handler m2j t j ?s') = Some (j + m2j MULTI_PRESS_TIMEOUT_MS)"
    if "\<not> time_before t (last_irq_time s + m2j DEBOUNCE_TIME_MS)"
    using that by (simp add: w irq_accepted)
  show ?thesis
    using quiet rearm by (simp add: w timer_expire_eq)
qed

theorem reset_clears_pending_gesture_witness:
  "press_count (snd (button_write (Some (CHR ''r'')) 1
      (after_probe\<lparr>press_count := 3, press_timer := Some 500\<rparr>))) = 0
   \<and> current_led_state (snd (button_write (Some (CHR ''r'')) 1
      (after_probe\<lparr>press_count := 3, press_timer := Some 500\<rparr>))) = 0
   \<and> gpio_value (snd (button_write (Some (CHR ''r'')) 1
      (after_probe\<lparr>press_count := 3, press_timer := Some 500\<rparr>))) = [False, False, False]
   \<and> \<not> button_work (run (msecs_to_jiffies_hz 100) [Timer_expire, Work_run]
        (snd (button_write (Some (CHR ''r'')) 1
          (after_probe\<lparr>press_count := 3, press_timer := Some 500\<rparr>))))
   \<and> dispatches (klog (run (msecs_to_jiffies_hz 100) [Timer_expire, Work_run]
        (snd (button_write (Some (CHR ''r'')) 1
          (after_probe\<lparr>press_count := 3, press_timer := Some 500\<rparr>))))) = []"
proof -
  let ?s = "after_probe\<lparr>press_count := 3, press_timer := Some 500\<rparr>"
  have g: "led_gpios ?s = [Some 0, Some 1, Some 2]"
    by (simp add: after_probe_led_gpios)
  have l: "length (gpio_value ?s) = 3"
    by (simp add: after_probe_def)
  have n: "(1::nat) \<le> 1"
    by simp
  have q: "\<not> button_work ?s" "list_all (\<lambda>e. \<not> is_press e) [Timer_expire, Work_run]"
    "klog ?s = []"
    by (simp_all add: after_probe_def)
  show ?thesis
    using reset_clears_pending_gesture [OF g l n,
        where evs = "[Timer_expire, Work_run]" and m2j = "msecs_to_jiffies_hz 100"] q
    by simp
qed


section \<open>The status query\<close>

lemma dec_nat_length: "n < 10 ^ k \<Longrightarrow> 0 < k \<Longrightarrow> length (dec_nat n) \<le> k"
proof (induction n arbitrary: k rule: dec_nat.induct)
  case (1 n)
  show ?case
  proof (cases "n < 10")
    case True
    then show ?thesis using "1.prems"(2) by (simp add: dec_nat.simps [of n])
  next
    case False
    obtain k' where k: "k = Suc k'"
      using "1.prems"(2) by (cases k) simp_all
    have k'0: "0 < k'"
    proof (rule ccontr)
      assume "\<not> 0 < k'"
      then have "k = 1" using k by simp
      then show False using "1.prems"(1) False by simp
    qed
    have "n < 10 * 10 ^ k'" using "1.prems"(1) k by simp
    then have "n div 10 < 10 ^ k'" by (simp add: less_mult_imp_div_less mult.commute)
    then have "length (dec_nat (n div 10)) \<le> k'"
      using "1.IH" [OF False] k'0 by blast
    then show ?thesis using False k by (simp add: dec_nat.simps [of n])
  qed
qed

lemma dec_int_length:
  assumes "- 2147483648 \<le> i" and "i < 2147483648"
  shows "length (dec_int i) \<le> 11"
proof (cases "i < 0")
  case True
  have "nat (- i) < 10 ^ 10" using assms(1) by simp
  then have "length (dec_nat (nat (- i))) \<le> 10" by (rule dec_nat_length) simp
  then show ?thesis using True by (simp add: dec_int_def)
next
  case False
  have "nat i < 10 ^ 10" using assms(2) by simp
  then have "length (dec_nat (nat i)) \<le> 10" by (rule dec_nat_length) simp
  then show ?thesis using False by (simp add: dec_int_def)
qed

lemma sint32_range: "- 2147483648 \<le> sint (w :: 32 word) \<and> sint w < 2147483648"
  using sint_ge [of w] sint_lt [of w] by simp

lemma led_status_of_length: "length (led_status_of st) \<le> 17"
  by (simp add: led_status_of_def)

lemma status_text_length: "length (status_text s) \<le> 199"
proof -
  have "length (dec_int (sint (press_count s))) \<le> 11"
    using sint32_range [of "press_count s"] by (intro dec_int_length) simp_all
  then show ?thesis
    using led_status_of_length [of "current_led_state s"]
    by (simp add: status_text_def)
qed

text \<open>
  C8. In every state the driver reaches from the probed state, a read at offset 0 that
  succeeds delivers the status text: the pressed or released flag, the decimal
  \<open>press_count\<close>, and the text of the current state, which is \<open>All LEDs OFF\<close> for
  0, \<open>LED 0 (Green) ON\<close> for 1, \<open>LED 1 (White) ON\<close> for 2, \<open>LED 2 (Yellow) ON\<close> for
  3 and \<open>All LEDs ON\<close> for 4, the only values \<open>current_led_state\<close> takes. The read
  clears \<open>button_pressed\<close> and changes nothing else, \<open>press_count\<close> and
  \<open>current_led_state\<close> in particular. (A read at another offset is the end of the file:
  it delivers nothing and changes nothing.)
\<close>

theorem status_query:
  assumes "s = run m2j evs after_probe"
    and "button_read copy_ok len 0 s = (Inr msg, offset', s')"
  shows "msg = ''Button Status: '' @ (if button_pressed s then ''Pressed'' else ''Released'')
            @ [CHR 0x0A] @ ''Press Count: '' @ dec_int (sint (press_count s))
            @ [CHR 0x0A] @ ''Current State: ''
            @ (if current_led_state s = 0 then ''All LEDs OFF''
               else if current_led_state s = 1 then ''LED 0 (Green) ON''
               else if current_led_state s = 2 then ''LED 1 (White) ON''
               else if current_led_state s = 3 then ''LED 2 (Yellow) ON''
               else ''All LEDs ON'')
            @ [CHR 0x0A]
     \<and> current_led_state s \<in> {0, 1, 2, 3, 4}
     \<and> led_status_of (current_led_state s) \<in>
           {''All LEDs OFF'', ''LED 0 (Green) ON'', ''LED 1 (White) ON'', ''LED 2 (Yellow) ON'',
            ''All LEDs ON''}
     \<and> offset' = int (length msg)
     \<and> \<not> button_pressed s'
     \<and> press_count s' = press_count s
     \<and> current_led_state s' = current_led_state s
     \<and> s' = s\<lparr>button_pressed := False\<rparr>"
proof -
  have "current_led_state after_probe \<in> {0, 1, 2, 3, 4}"
    by (simp add: after_probe_def)
  then have rg: "current_led_state s \<in> {0, 1, 2, 3, 4}"
    unfolding assms(1) by (rule run_led_state_range)
  then have st: "led_status_of (current_led_state s) \<in>
           {''All LEDs OFF'', ''LED 0 (Green) ON'', ''LED 1 (White) ON'', ''LED 2 (Yellow) ON'',
            ''All LEDs ON''}"
    by (auto simp: led_status_of_def)
  have tx: "led_status_of (current_led_state s) =
      (if current_led_state s = 0 then ''All LEDs OFF''
       else if current_led_state s = 1 then ''LED 0 (Green) ON''
       else if current_led_state s = 2 then ''LED 1 (White) ON''
       else if current_led_state s = 3 then ''LED 2 (Yellow) ON''
       else ''All LEDs ON'')"
    using rg by (auto simp: led_status_of_def)
  have tk: "take (min (length (status_text s)) 199) (status_text s) = status_text s"
    using status_text_length [of s] by simp
  have r: "msg = status_text s \<and> offset' = int (length (status_text s))
        \<and> s' = s\<lparr>button_pressed := False\<rparr>"
    using assms(2) by (auto simp add: button_read_def Let_def tk split: if_splits)
  then have m: "msg = ''Button Status: '' @ (if button_pressed s then ''Pressed'' else ''Released'')
            @ [CHR 0x0A] @ ''Press Count: '' @ dec_int (sint (press_count s))
            @ [CHR 0x0A] @ ''Current State: ''
            @ (if current_led_state s = 0 then ''All LEDs OFF''
               else if current_led_state s = 1 then ''LED 0 (Green) ON''
               else if current_led_state s = 2 then ''LED 1 (White) ON''
               else if current_led_state s = 3 then ''LED 2 (Yellow) ON''
               else ''All LEDs ON'')
            @ [CHR 0x0A]"
    unfolding status_text_def tx by simp
  show ?thesis
    using r rg st m by simp
qed

theorem status_query_witness:
  "button_read True 200 0
     (run (msecs_to_jiffies_hz 100) [Irq 100 100, Timer_expire, Work_run] after_probe) =
     (Inr (''Button Status: Pressed'' @ [CHR 0x0A] @ ''Press Count: 0'' @ [CHR 0x0A]
           @ ''Current State: LED 0 (Green) ON'' @ [CHR 0x0A]),
      70,
      (run (msecs_to_jiffies_hz 100) [Irq 100 100, Timer_expire, Work_run] after_probe)
        \<lparr>button_pressed := False\<rparr>)
   \<and> current_led_state
        (run (msecs_to_jiffies_hz 100) [Irq 100 100, Timer_expire, Work_run] after_probe) = 1"
proof -
  let ?m = "msecs_to_jiffies_hz 100"
  let ?s = "run ?m [Irq 100 100, Timer_expire, Work_run] after_probe"
  have s: "?s = after_probe\<lparr>press_count := 0, button_pressed := True, current_led_state := 1,
        last_irq_time := 100, gpio_value := [True, False, False],
        gpio_trace := [(0, False), (1, False), (2, False), (0, True)],
        klog := [Button_pressed_Count 1, Processing_presses 1, All_LEDs_turned_OFF,
          LED_turned_ON 0]\<rparr>"
    by (simp add: run_def button_irq_handler_def msecs_to_jiffies_hz_def DEBOUNCE_TIME_MS_def
        MULTI_PRESS_TIMEOUT_MS_def time_before_def after_probe_def Let_def pr_info_def mod_timer_def
        timer_expire_def press_timer_callback_def schedule_work_def work_run_def
        button_work_handler_def control_led_def turn_off_all_leds_def set_led_if_present_def
        gpiod_set_value_def led_get_gpio_def)
  have c: "current_led_state ?s = 1" "button_pressed ?s" "press_count ?s = 0"
    unfolding s by simp_all
  have t: "status_text ?s = ''Button Status: Pressed'' @ [CHR 0x0A] @ ''Press Count: 0'' @ [CHR 0x0A]
           @ ''Current State: LED 0 (Green) ON'' @ [CHR 0x0A]"
    by (simp add: status_text_def c dec_int_def dec_nat.simps led_status_of_def)
  obtain msg offset' s' where r: "button_read True 200 0 ?s = (Inr msg, offset', s')"
    by (simp add: button_read_def Let_def t)
  have "msg = ''Button Status: Pressed'' @ [CHR 0x0A] @ ''Press Count: 0'' @ [CHR 0x0A]
           @ ''Current State: LED 0 (Green) ON'' @ [CHR 0x0A]
        \<and> offset' = int (length msg) \<and> s' = ?s\<lparr>button_pressed := False\<rparr>"
    using status_query [OF refl r] by (simp add: c dec_int_def dec_nat.simps)
  then show ?thesis
    using r c by simp
qed


end
